theory Spec2Isabelle
  imports Complex_Main "HOL-Library.AList"
begin

section \<open>Python values\<close>

text \<open>
  Python floats are IEEE-754 binary64 numbers. A finite float is represented by the
  rational number it denotes, and \<open>NaN\<close> is a value of its own. Every arithmetic
  operation computes the exact rational result and rounds it to the nearest number with
  a 53-bit significand, ties to even (\<open>rnd\<close>). Overflow to infinity, subnormal
  numbers and the sign of zero are outside this model: the magnitudes that occur in the
  program (prices, quantities, list lengths) are far from those ranges.
\<close>

datatype pyfloat = Fl rat | NaN

function bit_length :: "int \<Rightarrow> int" where
  "bit_length n = (if n \<le> 0 then 0 else 1 + bit_length (drop_bit (Suc 0) n))"
  by pat_completeness auto
termination
  by (relation "measure nat") (auto simp: drop_bit_Suc)

declare bit_length.simps [simp del]

text \<open>\<open>pow2 e\<close> is \<open>2^e\<close>, for an exponent of either sign.\<close>

definition pow2 :: "int \<Rightarrow> rat" where
  "pow2 e = (if 0 \<le> e then of_int (push_bit (nat e) 1) else 1 / of_int (push_bit (nat (- e)) 1))"

text \<open>
  \<open>ilog2 x\<close> is the binary exponent of a positive rational: \<open>2^e \<le> x < 2^(e+1)\<close>.
  For \<open>x < 1\<close> it is minus the bit length of the ceiling of \<open>1 / x\<close>, less one.
\<close>

definition ilog2 :: "rat \<Rightarrow> int" where
  "ilog2 x = (if 1 \<le> x then bit_length \<lfloor>x\<rfloor> - 1 else - bit_length (- \<lfloor>- (1 / x)\<rfloor> - 1))"

definition round_even :: "rat \<Rightarrow> int" where
  "round_even m = (let r = \<lfloor>m\<rfloor>; f = m - of_int r in
     if f < 1 / 2 then r else if 1 / 2 < f then r + 1 else if r mod 2 = 0 then r else r + 1)"

definition rnd :: "rat \<Rightarrow> rat" where
  "rnd x = (if x = 0 then 0 else
     let a = \<bar>x\<bar>; ulp = pow2 (ilog2 a - 52); m = round_even (a / ulp)
     in sgn x * of_int m * ulp)"

fun fadd :: "pyfloat \<Rightarrow> pyfloat \<Rightarrow> pyfloat" where
  "fadd (Fl a) (Fl b) = Fl (rnd (a + b))"
| "fadd _ _ = NaN"

fun fsub :: "pyfloat \<Rightarrow> pyfloat \<Rightarrow> pyfloat" where
  "fsub (Fl a) (Fl b) = Fl (rnd (a - b))"
| "fsub _ _ = NaN"

fun fmul :: "pyfloat \<Rightarrow> pyfloat \<Rightarrow> pyfloat" where
  "fmul (Fl a) (Fl b) = Fl (rnd (a * b))"
| "fmul _ _ = NaN"

text \<open>
  Python raises ZeroDivisionError for a zero divisor. Every call of \<open>fdiv\<close> below
  either has a constant divisor or is made under a test that the divisor is not zero, as
  in the source.
\<close>

fun fdiv :: "pyfloat \<Rightarrow> pyfloat \<Rightarrow> pyfloat" where
  "fdiv (Fl a) (Fl b) = Fl (rnd (a / b))"
| "fdiv _ _ = NaN"

fun fabs :: "pyfloat \<Rightarrow> pyfloat" where
  "fabs (Fl a) = Fl \<bar>a\<bar>"
| "fabs NaN = NaN"

text \<open>\<open>float(n)\<close> for an integer, \<open>bool(x)\<close> and \<open>math.isnan(x)\<close> for a float.\<close>

definition float_of_int :: "int \<Rightarrow> pyfloat" where
  "float_of_int n = Fl (rnd (of_int n))"

fun truthy :: "pyfloat \<Rightarrow> bool" where
  "truthy (Fl a) = (a \<noteq> 0)"
| "truthy NaN = True"

fun isnan :: "pyfloat \<Rightarrow> bool" where
  "isnan (Fl a) = False"
| "isnan NaN = True"

datatype error =
    AccountSelectionError \<comment> \<open>\<open>Exception("IB account selection error")\<close>\<close>
  | AccountMismatch \<comment> \<open>the \<open>ValueError()\<close> raised by \<open>refresh_account\<close>\<close>
  | ValueError \<comment> \<open>\<open>float(s)\<close>, \<open>int(s)\<close>, \<open>strptime(s, f)\<close> of a malformed string, \<open>int(nan)\<close>\<close>
  | KeyError \<comment> \<open>\<open>OrderAction[name]\<close> of an unknown name\<close>
  | TypeError \<comment> \<open>unpacking an object that is not iterable\<close>
  | ZeroDivisionError

text \<open>\<open>int(x)\<close> truncates a float towards zero and raises ValueError on NaN.\<close>

fun py_int :: "pyfloat \<Rightarrow> error + int" where
  "py_int (Fl a) = Inr (if 0 \<le> a then \<lfloor>a\<rfloor> else - \<lfloor>- a\<rfloor>)"
| "py_int NaN = Inl ValueError"

type_synonym timestamp = int

text \<open>
  The readings of the clock: \<open>datetime.utcnow()\<close>, \<open>datetime.now()\<close> and
  \<open>str(datetime.now())\<close>. One refresh is modelled with one reading.
\<close>

record clock =
  utcnow :: timestamp
  now :: timestamp
  str_now :: string

section \<open>The object model (data\_models.py)\<close>

text \<open>
  \<open>obj\<close> is the identity of the Python object (the code compares positions with
  \<open>is\<close>). The back reference from a position or an order to its account is
  represented by membership in the account's lists.
\<close>

record position =
  obj :: nat
  symbol :: string
  qty :: int
  price :: pyfloat
  pos_value :: pyfloat
  current_price :: pyfloat
  current_value :: pyfloat
  profit :: pyfloat
  profit_margin :: pyfloat
  created_at :: timestamp
  updated_at :: timestamp

definition Position :: "clock \<Rightarrow> nat \<Rightarrow> string \<Rightarrow> int \<Rightarrow> pyfloat \<Rightarrow> pyfloat \<Rightarrow> position" where
  "Position clk ob sy q pr v =
     \<lparr>obj = ob, symbol = sy, qty = q, price = pr, pos_value = v,
      current_price = pr, current_value = v, profit = Fl 0, profit_margin = Fl 0,
      created_at = utcnow clk, updated_at = utcnow clk\<rparr>"

definition position_update :: "clock \<Rightarrow> int \<Rightarrow> pyfloat \<Rightarrow> pyfloat \<Rightarrow> position \<Rightarrow> position" where
  "position_update clk q pr v p =
     p\<lparr>qty := q, price := pr, pos_value := v, updated_at := utcnow clk\<rparr>"

definition update_pnl :: "clock \<Rightarrow> pyfloat option \<Rightarrow> position \<Rightarrow> position" where
  "update_pnl clk last_price p =
     (case last_price of
        None \<Rightarrow> p
      | Some lp \<Rightarrow>
          if \<not> isnan lp then
            let cv = fabs (fmul (float_of_int (qty p)) lp);
                pf = (if 0 \<le> qty p then fsub cv (pos_value p) else fsub (pos_value p) cv);
                pm = (if truthy (pos_value p) then fdiv pf (pos_value p) else Fl 0)
            in p\<lparr>current_price := lp, current_value := cv, profit := pf,
                 profit_margin := pm, updated_at := utcnow clk\<rparr>
          else p)"

section \<open>Market data (market\_data.py)\<close>

text \<open>
  A broker contract. \<open>cls\<close> is the name of its class (Contract, or a subclass such as
  Stock, Index, Option), \<open>strike\<close> holds \<open>str(contract.strike)\<close>, the only use the
  program makes of the strike, and \<open>other_fields\<close> lists the fields the program never
  reads (localSymbol, tradingClass, ...) that are not at their default, each with its
  printed value.
\<close>

record ib_contract =
  cls :: string
  secType :: string
  conId :: int
  c_symbol :: string
  lastTradeDateOrContractMonth :: string
  strike :: string
  c_right :: string
  exchange :: string
  currency :: string
  other_fields :: "(string \<times> string) list"

text \<open>
  The program compares contracts through \<open>__repr__\<close>, which prints the name of the
  class and every field that is not at its default, leaving \<open>secType\<close> out for a
  subclass of Contract. Two contracts have the same \<open>__repr__\<close> when they agree on
  the class and on these fields.
\<close>

definition same_repr :: "ib_contract \<Rightarrow> ib_contract \<Rightarrow> bool" where
  "same_repr c d =
     (cls c = cls d \<and>
      (if cls c = ''Contract'' then secType c = secType d else True) \<and>
      conId c = conId d \<and> c_symbol c = c_symbol d \<and>
      lastTradeDateOrContractMonth c = lastTradeDateOrContractMonth d \<and>
      strike c = strike d \<and> c_right c = c_right d \<and> exchange c = exchange d \<and>
      currency c = currency d \<and> other_fields c = other_fields d)"

definition Stock :: "string \<Rightarrow> string \<Rightarrow> string \<Rightarrow> ib_contract" where
  "Stock sy ex cur =
     \<lparr>cls = ''Stock'', secType = ''STK'', conId = 0, c_symbol = sy,
      lastTradeDateOrContractMonth = [], strike = ''0.0'', c_right = [], exchange = ex,
      currency = cur, other_fields = []\<rparr>"

definition Index :: "string \<Rightarrow> string \<Rightarrow> string \<Rightarrow> ib_contract" where
  "Index sy ex cur =
     \<lparr>cls = ''Index'', secType = ''IND'', conId = 0, c_symbol = sy,
      lastTradeDateOrContractMonth = [], strike = ''0.0'', c_right = [], exchange = ex,
      currency = cur, other_fields = []\<rparr>"

text \<open>
  The program reads the date of a bar through
  \<open>strptime(str(bar.date), "%Y-%m-%d %H:%M:%S")\<close>. \<open>b_date\<close> is the result of that
  call: the time, or \<open>None\<close> where the printed date has another form (a date without
  a time, a time with a zone) and the call raises ValueError.
\<close>

record bar =
  b_open :: pyfloat
  b_close :: pyfloat
  b_date :: "timestamp option"

datatype duration = DAY | MONTH

record chart_data =
  chart_values :: "pyfloat list"
  time_from :: timestamp
  time_to :: timestamp

text \<open>\<open>sum(xs)\<close> adds from the left, starting at 0.\<close>

definition py_sum :: "pyfloat list \<Rightarrow> pyfloat" where
  "py_sum xs = foldl fadd (Fl 0) xs"

text \<open>\<open>xs[i:j]\<close>: a negative index counts from the end, and both are clipped.\<close>

definition slice_index :: "nat \<Rightarrow> int \<Rightarrow> nat" where
  "slice_index n i = (if i < 0 then nat (max 0 (int n + i)) else min (nat i) n)"

definition py_slice :: "'a list \<Rightarrow> int \<Rightarrow> int \<Rightarrow> 'a list" where
  "py_slice xs i j = drop (slice_index (length xs) i) (take (slice_index (length xs) j) xs)"

definition bind_err :: "'e + 'a \<Rightarrow> ('a \<Rightarrow> 'e + 'b) \<Rightarrow> 'e + 'b" where
  "bind_err r f = (case r of Inl e \<Rightarrow> Inl e | Inr x \<Rightarrow> f x)"

text \<open>\<open>int((1. * len(self.values) / length) * i)\<close>\<close>

definition bucket_bound :: "nat \<Rightarrow> int \<Rightarrow> int \<Rightarrow> error + int" where
  "bucket_bound n len i =
     py_int (fmul (fdiv (fmul (Fl 1) (float_of_int (int n))) (float_of_int len)) (float_of_int i))"

definition resample_value :: "pyfloat list \<Rightarrow> int \<Rightarrow> int \<Rightarrow> error + pyfloat" where
  "resample_value vs len i =
     bind_err (bucket_bound (length vs) len i) (\<lambda>i1.
     bind_err (bucket_bound (length vs) len (i + 1)) (\<lambda>i2.
       let i2 = (if int (length vs) < i2 then int (length vs) else i2) in
       if i2 - i1 = 0 then Inl ZeroDivisionError
       else Inr (fdiv (py_sum (py_slice vs i1 i2)) (float_of_int (i2 - i1)))))"

fun resample_loop :: "pyfloat list \<Rightarrow> int \<Rightarrow> int list \<Rightarrow> pyfloat list \<Rightarrow> error + pyfloat list" where
  "resample_loop vs len [] acc = Inr acc"
| "resample_loop vs len (i # is) acc =
     (case resample_value vs len i of
        Inl e \<Rightarrow> Inl e
      | Inr v \<Rightarrow> resample_loop vs len is (acc @ [v]))"

definition resample :: "chart_data \<Rightarrow> int \<Rightarrow> error + pyfloat list" where
  "resample cd len =
     (if int (length (chart_values cd)) \<le> len then Inr (chart_values cd)
      else resample_loop (chart_values cd) len (map int [0..<nat len]) [])"

record query =
  q_symbol :: string
  q_duration :: duration
  q_contract :: ib_contract
  ib_bars :: "bar list"

definition extract_bar_average :: "query \<Rightarrow> bar \<Rightarrow> pyfloat" where
  "extract_bar_average q b =
     (let average = (if truthy (b_close b) then fdiv (fadd (b_open b) (b_close b)) (Fl 2)
                     else b_open b)
      in fmul average (if secType (q_contract q) = ''OPT'' then Fl 100 else Fl 1))"

definition get_values :: "query \<Rightarrow> pyfloat list" where
  "get_values q = map (extract_bar_average q) (ib_bars q)"

definition get_last_value :: "query \<Rightarrow> pyfloat option" where
  "get_last_value q =
     (if ib_bars q \<noteq> [] then Some (extract_bar_average q (last (ib_bars q))) else None)"

definition strptime :: "bar \<Rightarrow> error + timestamp" where
  "strptime b = (case b_date b of None \<Rightarrow> Inl ValueError | Some t \<Rightarrow> Inr t)"

definition get_values_start_time :: "clock \<Rightarrow> query \<Rightarrow> error + timestamp" where
  "get_values_start_time clk q =
     (if ib_bars q \<noteq> [] then strptime (hd (ib_bars q)) else Inr (now clk))"

definition get_values_end_time :: "clock \<Rightarrow> query \<Rightarrow> error + timestamp" where
  "get_values_end_time clk q =
     (if ib_bars q \<noteq> [] then strptime (last (ib_bars q)) else Inr (now clk))"

definition get_chart_data :: "clock \<Rightarrow> query \<Rightarrow> error + chart_data" where
  "get_chart_data clk q =
     bind_err (get_values_start_time clk q) (\<lambda>t1.
     bind_err (get_values_end_time clk q) (\<lambda>t2.
       Inr \<lparr>chart_values = get_values q, time_from = t1, time_to = t2\<rparr>))"

definition StockQuery :: "string \<Rightarrow> duration \<Rightarrow> query" where
  "StockQuery sy d =
     \<lparr>q_symbol = sy, q_duration = d, q_contract = Stock sy ''SMART'' ''USD'', ib_bars = []\<rparr>"

definition IndexQuery :: "string \<Rightarrow> duration \<Rightarrow> query" where
  "IndexQuery sy d =
     \<lparr>q_symbol = sy, q_duration = d, q_contract = Index sy ''CBOE'' ''USD'', ib_bars = []\<rparr>"

text \<open>
  \<open>ContractQuery\<close> keeps the broker's contract object and sets its exchange to SMART
  when it is NASDAQ; \<open>add_query\<close> sets an empty exchange to SMART in the same way. The
  query holds the contract after these assignments. The assignments are made to the
  broker's own object: within the refresh nothing else reads the exchange of that object,
  and a later refresh is given the broker's report as it is then, with the contracts as
  these assignments have left them.
\<close>

definition ContractQuery :: "ib_contract \<Rightarrow> duration \<Rightarrow> query" where
  "ContractQuery c d =
     \<lparr>q_symbol = c_symbol c, q_duration = d,
      q_contract = (if exchange c = ''NASDAQ'' then c\<lparr>exchange := ''SMART''\<rparr> else c),
      ib_bars = []\<rparr>"

section \<open>The broker application\<close>

text \<open>
  The connection \<open>app\<close> is an external collaborator. What it reports during one
  refresh is a value of \<open>ib_app\<close>; the program reads it through the calls named
  by the fields.
\<close>

text \<open>
  An account summary value is a string to which the program applies \<open>float()\<close> or
  \<open>int()\<close>. It is represented by the results of the two conversions, \<open>None\<close>
  where the conversion raises ValueError.
\<close>

datatype acs_value = AcsValue (as_float: "pyfloat option") (as_int: "int option")

record acc_summary =
  as_account :: string
  tag :: string
  as_value :: acs_value

record ib_position =
  ip_contract :: ib_contract
  avgCost :: pyfloat
  ip_position :: pyfloat

record ib_order =
  action :: string
  totalQuantity :: pyfloat
  lmtPrice :: pyfloat
  permId :: int
  orderType :: string

record ib_execution =
  shares :: pyfloat
  ex_price :: pyfloat
  avgPrice :: pyfloat
  ex_permId :: int

record ib_fill =
  f_time :: timestamp
  execution :: ib_execution
  commission :: pyfloat

text \<open>
  \<open>isDone\<close> and \<open>isActive\<close> are the results of the trade's methods of those names,
  \<open>status\<close> is \<open>orderStatus.status\<close>.
\<close>

record ib_trade =
  t_contract :: ib_contract
  t_order :: ib_order
  status :: string
  isDone :: bool
  isActive :: bool
  fills :: "ib_fill list"

record ib_app =
  accountSummary :: "acc_summary list"
  app_positions :: "string \<Rightarrow> ib_position list"
  trades :: "ib_trade list"
  reqCompletedOrders :: "ib_trade list"
  app_fills :: "ib_fill list"
  reqHistoricalData :: "ib_contract \<Rightarrow> string \<Rightarrow> string \<Rightarrow> bar list"
  reqContractDetails :: "ib_contract \<Rightarrow> ib_contract list"

section \<open>The query cache (market\_data.Server)\<close>

text \<open>
  \<open>queries\<close> is the cache. \<open>cancelled\<close> records the calls of
  \<open>app.cancelHistoricalData\<close>, in order.
\<close>

record server =
  queries :: "query list"
  cancelled :: "bar list list"

definition same_key :: "query \<Rightarrow> query \<Rightarrow> bool" where
  "same_key t q = (same_repr (q_contract t) (q_contract q) \<and> q_duration t = q_duration q)"

definition find_query :: "server \<Rightarrow> query \<Rightarrow> query option" where
  "find_query srv q =
     (case filter (\<lambda>t. same_key t q) (queries srv) of [] \<Rightarrow> None | t # _ \<Rightarrow> Some t)"

definition bar_size :: "duration \<Rightarrow> string" where
  "bar_size d = (case d of DAY \<Rightarrow> ''1 min'' | MONTH \<Rightarrow> ''1 day'')"

definition duration_str :: "duration \<Rightarrow> string" where
  "duration_str d = (case d of DAY \<Rightarrow> ''1 D'' | MONTH \<Rightarrow> ''1 M'')"

definition add_query :: "ib_app \<Rightarrow> server \<Rightarrow> query \<Rightarrow> query \<times> server" where
  "add_query app srv q =
     (case find_query srv q of
        Some existing_query \<Rightarrow> (existing_query, srv)
      | None \<Rightarrow>
          let c = (if exchange (q_contract q) = [] then (q_contract q)\<lparr>exchange := ''SMART''\<rparr>
                   else q_contract q);
              q' = q\<lparr>q_contract := c,
                     ib_bars := reqHistoricalData app c (duration_str (q_duration q))
                                  (bar_size (q_duration q))\<rparr>
          in (q', srv\<lparr>queries := queries srv @ [q']\<rparr>))"

definition delete_at :: "nat \<Rightarrow> 'a list \<Rightarrow> 'a list" where
  "delete_at i xs = take i xs @ drop (Suc i) xs"

text \<open>
  The loop of \<open>remove_query\<close> is \<open>for i, q in self.queries\<close>: every element of the
  list is unpacked into two names. The elements are Query objects, which are not
  iterable, so the unpacking raises TypeError.
\<close>

definition unpack_query :: "query \<Rightarrow> error + (nat \<times> query)" where
  "unpack_query t = Inl TypeError"

fun remove_query_loop :: "query list \<Rightarrow> query \<Rightarrow> server \<Rightarrow> error + server" where
  "remove_query_loop [] query srv = Inr srv"
| "remove_query_loop (t # ts) query srv =
     (case unpack_query t of
        Inl e \<Rightarrow> Inl e
      | Inr (i, q) \<Rightarrow>
          if same_key q query
          then Inr \<lparr>queries = delete_at i (queries srv),
                    cancelled = cancelled srv @ [ib_bars q]\<rparr>
          else remove_query_loop ts query srv)"

definition remove_query :: "server \<Rightarrow> query \<Rightarrow> error + server" where
  "remove_query srv query =
     (case find_query srv query of
        None \<Rightarrow> Inr srv
      | Some _ \<Rightarrow> remove_query_loop (queries srv) query srv)"

definition remove_all :: "server \<Rightarrow> server" where
  "remove_all srv = \<lparr>queries = [], cancelled = cancelled srv @ map ib_bars (queries srv)\<rparr>"

section \<open>Orders and accounts (data\_models.py)\<close>

datatype OrderStatus = NEW | SENT | ACTIVE | OK | CANCD | ERROR

datatype OrderAction = BUY | SELL

definition action_name :: "OrderAction \<Rightarrow> string" where
  "action_name a = (case a of BUY \<Rightarrow> ''BUY'' | SELL \<Rightarrow> ''SELL'')"

text \<open>\<open>OrderAction[name]\<close>\<close>

definition order_action_of :: "string \<Rightarrow> error + OrderAction" where
  "order_action_of s =
     (if s = ''BUY'' then Inr BUY else if s = ''SELL'' then Inr SELL else Inl KeyError)"

record order =
  o_code :: string
  o_symbol :: string
  o_status :: OrderStatus
  o_action :: OrderAction
  req_qty :: int
  lmt_price :: pyfloat
  sent_at :: "timestamp option"
  completed_at :: "timestamp option"
  o_qty :: pyfloat
  avg_price :: pyfloat
  o_commission :: pyfloat
  ib_id :: int
  ib_order_type :: "string option"
  ib_order_status :: "string option"
  o_created_at :: timestamp
  o_updated_at :: timestamp

definition Order :: "clock \<Rightarrow> string \<Rightarrow> OrderAction \<Rightarrow> int \<Rightarrow> pyfloat \<Rightarrow> int \<Rightarrow> order" where
  "Order clk sy act rq lmt ibid =
     \<lparr>o_code = sy @ '' '' @ action_name act @ '' '' @ str_now clk, o_symbol = sy,
      o_status = NEW, o_action = act, req_qty = rq, lmt_price = lmt,
      sent_at = None, completed_at = None, o_qty = Fl 0, avg_price = Fl 0,
      o_commission = Fl 0, ib_id = ibid, ib_order_type = None, ib_order_status = None,
      o_created_at = utcnow clk, o_updated_at = utcnow clk\<rparr>"

definition order_update ::
  "clock \<Rightarrow> OrderStatus \<Rightarrow> timestamp option \<Rightarrow> timestamp option \<Rightarrow> pyfloat \<Rightarrow> pyfloat \<Rightarrow> pyfloat \<Rightarrow>
   string option \<Rightarrow> string option \<Rightarrow> order \<Rightarrow> order" where
  "order_update clk st sent compl q avg comm ty ibst ord =
     ord\<lparr>o_status := st, sent_at := sent, completed_at := compl, o_qty := q,
         avg_price := avg, o_commission := comm, ib_order_type := ty,
         ib_order_status := ibst, o_updated_at := utcnow clk\<rparr>"

record account =
  code :: string
  total_value :: pyfloat
  cash_value :: pyfloat
  available_funds :: pyfloat
  day_trades_remaining :: int
  acc_created_at :: timestamp
  acc_updated_at :: timestamp
  acc_positions :: "position list"
  orders :: "order list"

definition account_update ::
  "clock \<Rightarrow> pyfloat \<Rightarrow> pyfloat \<Rightarrow> pyfloat \<Rightarrow> int \<Rightarrow> account \<Rightarrow> account" where
  "account_update clk tv cv af dtr a =
     a\<lparr>total_value := tv, cash_value := cv, available_funds := af,
       day_trades_remaining := dtr, acc_updated_at := utcnow clk\<rparr>"

section \<open>The broker service (ib\_service.IBBroker)\<close>

text \<open>
  The service after \<open>__init_ib_app\<close>: \<open>md\<close> is the query server, \<open>contracts\<close>
  the memo of resolved symbols (a dict, as the list of its items in insertion order),
  \<open>position_chart_data\<close> the list of pairs of a position (its identity) and its
  chart data. Calls of \<open>logging\<close> change none of these and are left out.
\<close>

record ib_broker =
  md :: server
  contracts :: "(string \<times> ib_contract) list"
  position_chart_data :: "(nat \<times> chart_data) list"

fun find_position_chart_data_index :: "(nat \<times> chart_data) list \<Rightarrow> position \<Rightarrow> int" where
  "find_position_chart_data_index [] p = - 1"
| "find_position_chart_data_index (v # vs) p =
     (if fst v = obj p then 0
      else let i = find_position_chart_data_index vs p in if i < 0 then - 1 else i + 1)"

definition get_position_chart_data :: "ib_broker \<Rightarrow> position \<Rightarrow> chart_data option" where
  "get_position_chart_data b p =
     (let i = find_position_chart_data_index (position_chart_data b) p in
      if 0 \<le> i then Some (snd (position_chart_data b ! nat i)) else None)"

definition store_position_chart_data :: "ib_broker \<Rightarrow> position \<Rightarrow> chart_data \<Rightarrow> ib_broker" where
  "store_position_chart_data b p cd =
     (let i = find_position_chart_data_index (position_chart_data b) p; t = (obj p, cd) in
      if 0 \<le> i then b\<lparr>position_chart_data := (position_chart_data b)[nat i := t]\<rparr>
      else b\<lparr>position_chart_data := position_chart_data b @ [t]\<rparr>)"

definition clear_position_chart_data :: "ib_broker \<Rightarrow> position \<Rightarrow> ib_broker" where
  "clear_position_chart_data b p =
     (let i = find_position_chart_data_index (position_chart_data b) p in
      if 0 \<le> i then b\<lparr>position_chart_data := delete_at (nat i) (position_chart_data b)\<rparr>
      else b)"

fun get_account_code_loop :: "acc_summary list \<Rightarrow> error + string" where
  "get_account_code_loop [] = Inl AccountSelectionError"
| "get_account_code_loop (acs # rest) =
     (if as_account acs \<noteq> ''all'' then Inr (as_account acs) else get_account_code_loop rest)"

definition get_account_code :: "ib_app \<Rightarrow> error + string" where
  "get_account_code app = get_account_code_loop (accountSummary app)"

subsection \<open>create\_contract\<close>

text \<open>
  The result is the contract (\<open>None\<close> when the symbol is not resolved), the service
  with its memo, and the contracts passed to \<open>app.reqContractDetails\<close>, in order.
\<close>

function create_contract ::
  "ib_app \<Rightarrow> ib_broker \<Rightarrow> string \<Rightarrow> string \<Rightarrow> ib_contract option \<times> ib_broker \<times> ib_contract list" where
  "create_contract app b sy ex =
     (case map_of (contracts b) sy of
        Some c \<Rightarrow> (Some c, b, [])
      | None \<Rightarrow>
          let ib_contract = Stock sy ex ''USD'';
              ib_contract_details = reqContractDetails app ib_contract
          in
          if length ib_contract_details = 1
          then (Some ib_contract, b\<lparr>contracts := AList.update sy ib_contract (contracts b)\<rparr>, [ib_contract])
          else if 1 < length ib_contract_details
          then (if ex = ''SMART''
                then (case create_contract app b sy ''ISLAND'' of
                        (r, b', reqs) \<Rightarrow> (r, b', ib_contract # reqs))
                else (None, b, [ib_contract]))
          else (if ex = ''ISLAND''
                then (case create_contract app b sy ''NYSE'' of
                        (r, b', reqs) \<Rightarrow> (r, b', ib_contract # reqs))
                else (None, b, [ib_contract])))"
  by pat_completeness auto
termination
  by (relation "measure (\<lambda>(app, b, sy, ex).
        if ex = ''SMART'' then 2 else if ex = ''ISLAND'' then 1 else 0)") auto

declare create_contract.simps [simp del]

subsection \<open>refresh\_order\<close>

definition trade_status :: "ib_trade \<Rightarrow> OrderStatus" where
  "trade_status t =
     (if isDone t then
        (if status t = ''Filled'' then OK else CANCD)
      else if isActive t then
        (if status t = ''Submitted'' then ACTIVE else SENT)
      else if status t = ''PendingCancel'' then ACTIVE
      else ERROR)"

definition get_order_fills_from_executions :: "ib_app \<Rightarrow> ib_trade \<Rightarrow> ib_fill list" where
  "get_order_fills_from_executions app t =
     filter (\<lambda>f. ex_permId (execution f) = permId (t_order t)) (app_fills app)"

text \<open>\<open>fill.execution.price or fill.execution.avgPrice\<close>\<close>

definition fill_price :: "ib_fill \<Rightarrow> pyfloat" where
  "fill_price fill =
     (if truthy (ex_price (execution fill)) then ex_price (execution fill)
      else avgPrice (execution fill))"

text \<open>The loop over the fills, on \<open>(latest_fill_time, qty, total, commission)\<close>.\<close>

fun fills_loop ::
  "ib_fill list \<Rightarrow> timestamp option \<times> pyfloat \<times> pyfloat \<times> pyfloat \<Rightarrow>
   timestamp option \<times> pyfloat \<times> pyfloat \<times> pyfloat" where
  "fills_loop [] acc = acc"
| "fills_loop (fill # rest) (latest_fill_time, q, tot, comm) =
     fills_loop rest
       (case latest_fill_time of
          None \<Rightarrow> Some (f_time fill)
        | Some t \<Rightarrow> if t < f_time fill then Some (f_time fill) else Some t,
        fadd q (shares (execution fill)),
        fadd tot (fmul (fill_price fill) (shares (execution fill))),
        fadd comm (commission fill))"

definition trade_fills :: "ib_app \<Rightarrow> ib_trade \<Rightarrow> ib_fill list" where
  "trade_fills app t =
     (if fills t = [] then get_order_fills_from_executions app t else fills t)"

definition refresh_order :: "clock \<Rightarrow> ib_app \<Rightarrow> order \<Rightarrow> ib_trade option \<Rightarrow> bool \<times> order" where
  "refresh_order clk app ord ib_trade =
     (case ib_trade of
        None \<Rightarrow> (False, ord)
      | Some t \<Rightarrow>
          (case fills_loop (trade_fills app t) (None, Fl 0, Fl 0, Fl 0) of
             (latest_fill_time, q, tot, comm) \<Rightarrow>
               let st = trade_status t;
                   avg = (if truthy q then fdiv tot q else Fl 0);
                   compl = (if st = OK then latest_fill_time else None)
               in (True, order_update clk st (sent_at ord) compl q avg comm
                           (Some (orderType (t_order t))) (Some (status t)) ord)))"

subsection \<open>refresh\_account\<close>

text \<open>
  An exception leaves the objects as they are when it is raised: a failing step
  returns the error with the service and the account at that moment.
\<close>

type_synonym 'a result = "(error \<times> ib_broker \<times> account) + 'a"

text \<open>The loop over the account summary, on
  \<open>(total_cash_value, available_funds, net_liquidation, day_trades_remaining)\<close>.\<close>

fun summary_loop ::
  "string \<Rightarrow> acc_summary list \<Rightarrow> pyfloat \<times> pyfloat \<times> pyfloat \<times> int \<Rightarrow>
   error + (pyfloat \<times> pyfloat \<times> pyfloat \<times> int)" where
  "summary_loop c [] v = Inr v"
| "summary_loop c (acs # rest) (tcv, af, nl, dtr) =
     (if as_account acs = c then
        (if tag acs = ''TotalCashValue'' then
           (case as_float (as_value acs) of
              None \<Rightarrow> Inl ValueError
            | Some x \<Rightarrow> summary_loop c rest (x, af, nl, dtr))
         else if tag acs = ''AvailableFunds'' then
           (case as_float (as_value acs) of
              None \<Rightarrow> Inl ValueError
            | Some x \<Rightarrow> summary_loop c rest (tcv, x, nl, dtr))
         else if tag acs = ''NetLiquidation'' then
           (case as_float (as_value acs) of
              None \<Rightarrow> Inl ValueError
            | Some x \<Rightarrow> summary_loop c rest (tcv, af, x, dtr))
         else if tag acs = ''DayTradesRemaining'' then
           (case as_int (as_value acs) of
              None \<Rightarrow> Inl ValueError
            | Some n \<Rightarrow> summary_loop c rest (tcv, af, nl, n))
         else summary_loop c rest (tcv, af, nl, dtr))
      else summary_loop c rest (tcv, af, nl, dtr))"

definition canonical_symbol :: "ib_contract \<Rightarrow> string" where
  "canonical_symbol c =
     (if secType c = ''OPT''
      then c_symbol c @ '' '' @ lastTradeDateOrContractMonth c @ '' '' @ strike c @ '' '' @ c_right c
      else c_symbol c)"

text \<open>The inner loop: the index of the first position with the symbol.\<close>

fun position_index :: "position list \<Rightarrow> string \<Rightarrow> nat option" where
  "position_index [] sy = None"
| "position_index (p # ps) sy =
     (if symbol p = sy then Some 0 else map_option Suc (position_index ps sy))"

text \<open>
  \<open>Position(account=account, ...)\<close> and \<open>Order(account=account, ...)\<close> add the new
  object to \<open>account.positions\<close> and \<open>account.orders\<close>, through the relationship
  between the classes. The identity of a new object differs from that of every object in
  use.
\<close>

definition fresh_obj :: "ib_broker \<Rightarrow> account \<Rightarrow> nat" where
  "fresh_obj b a =
     Suc (fold max (map obj (acc_positions a) @ map fst (position_chart_data b)) 0)"

text \<open>\<open>if current_price:\<close> on an optional float\<close>

definition price_truthy :: "pyfloat option \<Rightarrow> bool" where
  "price_truthy v = (case v of None \<Rightarrow> False | Some x \<Rightarrow> truthy x)"

definition refresh_position ::
  "clock \<Rightarrow> ib_app \<Rightarrow> ib_position \<Rightarrow> ib_broker \<Rightarrow> account \<Rightarrow> (ib_broker \<times> account) result" where
  "refresh_position clk app ibp b a =
     (let sy = canonical_symbol (ip_contract ibp) in
      case position_index (acc_positions a) sy of
        Some j \<Rightarrow>
          (case py_int (ip_position ibp) of
             Inl e \<Rightarrow> Inl (e, b, a)
           | Inr q \<Rightarrow>
               let p = position_update clk q (avgCost ibp)
                         (fmul (avgCost ibp) (fabs (ip_position ibp))) (acc_positions a ! j);
                   (price_query, srv) = add_query app (md b) (ContractQuery (ip_contract ibp) DAY)
               in
               (case get_chart_data clk price_query of
                  Inl e \<Rightarrow> Inl (e, b\<lparr>md := srv\<rparr>, a\<lparr>acc_positions := (acc_positions a)[j := p]\<rparr>)
                | Inr cd \<Rightarrow>
                    let b1 = store_position_chart_data (b\<lparr>md := srv\<rparr>) p cd;
                        current_price = get_last_value price_query;
                        p = (if price_truthy current_price then update_pnl clk current_price p
                             else p)
                    in Inr (b1, a\<lparr>acc_positions := (acc_positions a)[j := p]\<rparr>)))
      | None \<Rightarrow>
          (case py_int (ip_position ibp) of
             Inl e \<Rightarrow> Inl (e, b, a)
           | Inr q \<Rightarrow>
               let add_pos = Position clk (fresh_obj b a) sy q (avgCost ibp)
                               (fmul (avgCost ibp) (fabs (ip_position ibp)));
                   (price_query, srv) = add_query app (md b) (ContractQuery (ip_contract ibp) DAY)
               in
               (case get_chart_data clk price_query of
                  Inl e \<Rightarrow> Inl (e, b\<lparr>md := srv\<rparr>, a\<lparr>acc_positions := acc_positions a @ [add_pos]\<rparr>)
                | Inr cd \<Rightarrow>
                    let b1 = store_position_chart_data (b\<lparr>md := srv\<rparr>) add_pos cd;
                        current_price = get_last_value price_query;
                        add_pos = update_pnl clk current_price add_pos
                    in Inr (b1, a\<lparr>acc_positions := acc_positions a @ [add_pos]\<rparr>))))"

fun positions_loop ::
  "clock \<Rightarrow> ib_app \<Rightarrow> ib_position list \<Rightarrow> string list \<Rightarrow> ib_broker \<Rightarrow> account \<Rightarrow>
   (string list \<times> ib_broker \<times> account) result" where
  "positions_loop clk app [] symbols b a = Inr (symbols, b, a)"
| "positions_loop clk app (ibp # rest) symbols b a =
     (case refresh_position clk app ibp b a of
        Inl x \<Rightarrow> Inl x
      | Inr (b1, a1) \<Rightarrow>
          positions_loop clk app rest (symbols @ [canonical_symbol (ip_contract ibp)]) b1 a1)"

text \<open>The loop \<open>for i in range(len(account.positions) - 1, -1, -1)\<close>, on its indices.\<close>

fun delete_loop ::
  "string list \<Rightarrow> nat list \<Rightarrow> ib_broker \<Rightarrow> account \<Rightarrow> (ib_broker \<times> account) result" where
  "delete_loop symbols [] b a = Inr (b, a)"
| "delete_loop symbols (i # is) b a =
     (let p = acc_positions a ! i in
      if symbol p \<notin> set symbols then
        (let b1 = clear_position_chart_data b p in
         case remove_query (md b1) (StockQuery (symbol p) DAY) of
           Inl e \<Rightarrow> Inl (e, b1, a)
         | Inr srv \<Rightarrow>
             delete_loop symbols is (b1\<lparr>md := srv\<rparr>)
               (a\<lparr>acc_positions := delete_at i (acc_positions a)\<rparr>))
      else delete_loop symbols is b a)"

fun order_index :: "order list \<Rightarrow> int \<Rightarrow> nat option" where
  "order_index [] n = None"
| "order_index (ord # rest) n =
     (if ib_id ord = n then Some 0 else map_option Suc (order_index rest n))"

definition refresh_trade ::
  "clock \<Rightarrow> ib_app \<Rightarrow> ib_trade \<Rightarrow> ib_broker \<Rightarrow> account \<Rightarrow> (ib_broker \<times> account) result" where
  "refresh_trade clk app t b a =
     (let sy = canonical_symbol (t_contract t) in
      case order_index (orders a) (permId (t_order t)) of
        Some j \<Rightarrow>
          Inr (b, a\<lparr>orders := (orders a)[j := snd (refresh_order clk app (orders a ! j) (Some t))]\<rparr>)
      | None \<Rightarrow>
          (case order_action_of (action (t_order t)) of
             Inl e \<Rightarrow> Inl (e, b, a)
           | Inr act \<Rightarrow>
               (case py_int (totalQuantity (t_order t)) of
                  Inl e \<Rightarrow> Inl (e, b, a)
                | Inr rq \<Rightarrow>
                    let add_ord = Order clk sy act rq (lmtPrice (t_order t)) (permId (t_order t))
                    in Inr (b, a\<lparr>orders := orders a @ [snd (refresh_order clk app add_ord (Some t))]\<rparr>))))"

fun orders_loop ::
  "clock \<Rightarrow> ib_app \<Rightarrow> ib_trade list \<Rightarrow> ib_broker \<Rightarrow> account \<Rightarrow> (ib_broker \<times> account) result" where
  "orders_loop clk app [] b a = Inr (b, a)"
| "orders_loop clk app (t # rest) b a =
     (case refresh_trade clk app t b a of
        Inl x \<Rightarrow> Inl x
      | Inr (b1, a1) \<Rightarrow> orders_loop clk app rest b1 a1)"

definition refresh_account ::
  "clock \<Rightarrow> ib_app \<Rightarrow> ib_broker \<Rightarrow> account \<Rightarrow> (ib_broker \<times> account) result" where
  "refresh_account clk app b a =
     (case get_account_code app of
        Inl e \<Rightarrow> Inl (e, b, a)
      | Inr account_code \<Rightarrow>
          if code a \<noteq> account_code then Inl (AccountMismatch, b, a)
          else
            (case summary_loop (code a) (accountSummary app) (Fl 0, Fl 0, Fl 0, 0) of
               Inl e \<Rightarrow> Inl (e, b, a)
             | Inr (total_cash_value, available_funds', net_liquidation, day_trades_remaining') \<Rightarrow>
                 let a1 = account_update clk net_liquidation total_cash_value available_funds'
                            day_trades_remaining' a
                 in
                 (case positions_loop clk app (app_positions app (code a1)) [] b a1 of
                    Inl x \<Rightarrow> Inl x
                  | Inr (symbols, b2, a2) \<Rightarrow>
                      (case delete_loop symbols (rev [0..<length (acc_positions a2)]) b2 a2 of
                         Inl x \<Rightarrow> Inl x
                       | Inr (b3, a3) \<Rightarrow>
                           orders_loop clk app (trades app @ reqCompletedOrders app) b3 a3))))"

section \<open>Example values\<close>

definition ex_clock :: clock where
  "ex_clock = \<lparr>utcnow = 1000, now = 1000, str_now = ''2020-03-08 09:32:15''\<rparr>"

definition ex_fill :: "timestamp \<Rightarrow> rat \<Rightarrow> rat \<Rightarrow> rat \<Rightarrow> int \<Rightarrow> ib_fill" where
  "ex_fill tm n pr comm pid =
     \<lparr>f_time = tm,
      execution = \<lparr>shares = Fl n, ex_price = Fl pr, avgPrice = Fl pr, ex_permId = pid\<rparr>,
      commission = Fl comm\<rparr>"

definition ex_trade :: "string \<Rightarrow> bool \<Rightarrow> bool \<Rightarrow> ib_fill list \<Rightarrow> ib_trade" where
  "ex_trade st done active fs =
     \<lparr>t_contract = Stock ''GOOGL'' ''SMART'' ''USD'',
      t_order = \<lparr>action = ''BUY'', totalQuantity = Fl 10, lmtPrice = Fl 103, permId = 7,
                 orderType = ''LMT''\<rparr>,
      status = st, isDone = done, isActive = active, fills = fs\<rparr>"

text \<open>A broker that reports nothing.\<close>

definition ex_app :: ib_app where
  "ex_app =
     \<lparr>accountSummary = [], app_positions = (\<lambda>c. []), trades = [], reqCompletedOrders = [],
      app_fills = [], reqHistoricalData = (\<lambda>c d s. []), reqContractDetails = (\<lambda>c. [])\<rparr>"

definition ex_order :: order where
  "ex_order = Order ex_clock ''GOOGL'' BUY 10 (Fl 103) 7"

text \<open>Two fills: 5 shares at 100 and 5 shares at 102, commission 1 each.\<close>

definition ex_filled_trade :: ib_trade where
  "ex_filled_trade = ex_trade ''Filled'' True False [ex_fill 10 5 100 1 7, ex_fill 20 5 102 1 7]"

definition ex_broker :: ib_broker where
  "ex_broker = \<lparr>md = \<lparr>queries = [], cancelled = []\<rparr>, contracts = [],
                 position_chart_data = []\<rparr>"

text \<open>A broker that knows no contract at SMART and one at every other exchange.\<close>

definition ex_app_island :: ib_app where
  "ex_app_island =
     ex_app\<lparr>reqContractDetails := (\<lambda>c. if exchange c = ''SMART'' then [] else [c])\<rparr>"

text \<open>The broker of the tests: MSFT has two contracts at SMART, none at ISLAND, and one
  elsewhere; DUMMY has none anywhere; every other symbol has one.\<close>

definition ex_app_mock :: ib_app where
  "ex_app_mock =
     ex_app\<lparr>reqContractDetails := (\<lambda>c.
       if c_symbol c = ''MSFT'' \<and> exchange c = ''SMART'' then [c, c]
       else if c_symbol c = ''MSFT'' \<and> exchange c = ''ISLAND'' then []
       else if c_symbol c = ''DUMMY'' then []
       else [c])\<rparr>"

text \<open>A cache that holds one subscription, for the stock MSFT over a day.\<close>

definition ex_msft_server :: server where
  "ex_msft_server =
     \<lparr>queries = [(StockQuery ''MSFT'' DAY)\<lparr>ib_bars := [\<lparr>b_open = Fl 20, b_close = Fl 0, b_date = Some 5\<rparr>]\<rparr>],
      cancelled = []\<rparr>"

text \<open>An account with no positions and no orders.\<close>

definition ex_account :: account where
  "ex_account =
     \<lparr>code = ''prime'', total_value = Fl 3000, cash_value = Fl 2000, available_funds = Fl 1000,
      day_trades_remaining = 3, acc_created_at = 1, acc_updated_at = 1,
      acc_positions = [], orders = []\<rparr>"

text \<open>A summary record whose value is the decimal \<open>v\<close>: \<open>float()\<close> gives the nearest
  float and \<open>int()\<close>, for a whole number, the number.\<close>

definition ex_acs :: "string \<Rightarrow> string \<Rightarrow> rat \<Rightarrow> acc_summary" where
  "ex_acs c tg v =
     \<lparr>as_account = c, tag = tg, as_value = AcsValue (Some (Fl (rnd v))) (Some \<lfloor>v\<rfloor>)\<rparr>"

text \<open>A broker whose summary has none of the four tags for the account prime.\<close>

definition ex_app_sparse :: ib_app where
  "ex_app_sparse =
     ex_app\<lparr>accountSummary := [ex_acs ''prime'' ''BuyingPower'' 5000, ex_acs ''all'' ''Dummy1'' 1]\<rparr>"

text \<open>A broker that is logged in to the account B.\<close>

definition ex_app_other :: ib_app where
  "ex_app_other =
     ex_app\<lparr>accountSummary := [ex_acs ''B'' ''NetLiquidation'' 5000, ex_acs ''all'' ''Dummy1'' 1]\<rparr>"

text \<open>The summary of the tests, for the account prime.\<close>

definition ex_app_prime :: ib_app where
  "ex_app_prime =
     ex_app\<lparr>accountSummary :=
       [ex_acs ''prime'' ''NetLiquidation'' (30001 / 10),
        ex_acs ''prime'' ''TotalCashValue'' (10001 / 10),
        ex_acs ''prime'' ''AvailableFunds'' (20001 / 10),
        ex_acs ''prime'' ''DayTradesRemaining'' 2,
        ex_acs ''all'' ''Dummy1'' 1, ex_acs ''all'' ''Dummy2'' 1]\<rparr>"

text \<open>
  A broker that reports one position, 3 shares of FB at an average cost of 301, and one
  bar for every contract, with the price 20.
\<close>

definition ex_fb_contract :: ib_contract where
  "ex_fb_contract =
     \<lparr>cls = ''Stock'', secType = ''STK'', conId = 107113386, c_symbol = ''FB'',
      lastTradeDateOrContractMonth = [], strike = ''0.0'', c_right = [], exchange = ''NASDAQ'',
      currency = ''USD'', other_fields = [(''localSymbol'', ''FB''), (''tradingClass'', ''NMS'')]\<rparr>"

definition ex_ib_position_fb :: ib_position where
  "ex_ib_position_fb = \<lparr>ip_contract = ex_fb_contract, avgCost = Fl 301, ip_position = Fl 3\<rparr>"

definition ex_app_fb :: ib_app where
  "ex_app_fb =
     ex_app_prime\<lparr>
       app_positions := (\<lambda>c. [ex_ib_position_fb]),
       reqHistoricalData := (\<lambda>c d s. [\<lparr>b_open = Fl 20, b_close = Fl 0, b_date = Some 900\<rparr>])\<rparr>"

text \<open>The same broker before the first bar has arrived.\<close>

definition ex_app_quiet :: ib_app where
  "ex_app_quiet = ex_app_fb\<lparr>reqHistoricalData := (\<lambda>c d s. [])\<rparr>"

text \<open>The account of the tests, with the positions MSFT and GOOGL.\<close>

definition ex_account_two :: account where
  "ex_account_two =
     ex_account\<lparr>acc_positions :=
       [Position ex_clock 1 ''MSFT'' 1 (Fl 100) (Fl 100),
        Position ex_clock 2 ''GOOGL'' 2 (Fl 200) (Fl 400)]\<rparr>"

text \<open>
  The position, the account and the service after a refresh from \<open>ex_app_fb\<close>;
  \<open>ob\<close> is the identity of the new position.
\<close>

definition ex_fb_position :: "nat \<Rightarrow> position" where
  "ex_fb_position ob =
     \<lparr>obj = ob, symbol = ''FB'', qty = 3, price = Fl 301, pos_value = Fl 903,
      current_price = Fl 20, current_value = Fl 60, profit = Fl (- 843),
      profit_margin = Fl (rnd (- 843 / 903)), created_at = 1000, updated_at = 1000\<rparr>"

definition ex_account_fb :: "nat \<Rightarrow> account" where
  "ex_account_fb ob =
     \<lparr>code = ''prime'', total_value = Fl (rnd (30001 / 10)), cash_value = Fl (rnd (10001 / 10)),
      available_funds = Fl (rnd (20001 / 10)), day_trades_remaining = 2, acc_created_at = 1,
      acc_updated_at = 1000, acc_positions = [ex_fb_position ob], orders = []\<rparr>"

definition ex_broker_fb :: "nat \<Rightarrow> ib_broker" where
  "ex_broker_fb ob =
     \<lparr>md = \<lparr>queries = [\<lparr>q_symbol = ''FB'', q_duration = DAY,
                        q_contract = ex_fb_contract\<lparr>exchange := ''SMART''\<rparr>,
                        ib_bars = [\<lparr>b_open = Fl 20, b_close = Fl 0, b_date = Some 900\<rparr>]\<rparr>],
            cancelled = []\<rparr>,
      contracts = [],
      position_chart_data = [(ob, \<lparr>chart_values = [Fl 20], time_from = 900, time_to = 900\<rparr>)]\<rparr>"

text \<open>
  A fill of 5 shares whose execution price is zero and whose average price is 102, a
  filled trade with that fill after one of 5 shares at 100, and a broker with two
  executions, one of them for the permId of the example trades.
\<close>

definition ex_fallback_fill :: ib_fill where
  "ex_fallback_fill =
     \<lparr>f_time = 20,
      execution = \<lparr>shares = Fl 5, ex_price = Fl 0, avgPrice = Fl 102, ex_permId = 7\<rparr>,
      commission = Fl 1\<rparr>"

definition ex_avg_trade :: ib_trade where
  "ex_avg_trade = ex_trade ''Filled'' True False [ex_fill 10 5 100 1 7, ex_fallback_fill]"

definition ex_app_fills :: ib_app where
  "ex_app_fills = ex_app\<lparr>app_fills := [ex_fill 10 5 100 1 7, ex_fill 11 3 50 1 8]\<rparr>"

text \<open>
  A broker that reports 3 shares of SPY under the contract that \<open>StockQuery\<close> builds
  for the symbol, and the account and the service after a refresh from it.
\<close>

definition ex_app_spy :: ib_app where
  "ex_app_spy =
     ex_app_prime\<lparr>
       app_positions := (\<lambda>c. [\<lparr>ip_contract = Stock ''SPY'' ''SMART'' ''USD'', avgCost = Fl 301,
                                ip_position = Fl 3\<rparr>]),
       reqHistoricalData := (\<lambda>c d s. [\<lparr>b_open = Fl 20, b_close = Fl 0, b_date = Some 900\<rparr>])\<rparr>"

definition ex_account_spy :: account where
  "ex_account_spy = (ex_account_fb 1)\<lparr>acc_positions := [(ex_fb_position 1)\<lparr>symbol := ''SPY''\<rparr>]\<rparr>"

definition ex_broker_spy :: ib_broker where
  "ex_broker_spy =
     (ex_broker_fb 1)\<lparr>md :=
       \<lparr>queries = [(StockQuery ''SPY'' DAY)
                     \<lparr>ib_bars := [\<lparr>b_open = Fl 20, b_close = Fl 0, b_date = Some 900\<rparr>]\<rparr>],
        cancelled = []\<rparr>\<rparr>"

text \<open>A series of fifteen samples, 0 to 14.\<close>

definition ex_chart :: chart_data where
  "ex_chart = \<lparr>chart_values = map (\<lambda>i. Fl (of_int i)) [0..14], time_from = 0, time_to = 14\<rparr>"

section \<open>Position.update\_pnl\<close>

text \<open>
  C10. For every position, \<open>update_pnl\<close> with a last price that is \<open>None\<close> or NaN
  returns the position with every field as it was.
\<close>

theorem update_pnl_none_or_nan_noop:
  "update_pnl clk None p = p \<and> update_pnl clk (Some NaN) p = p"
  by (simp add: update_pnl_def)

section \<open>Floats\<close>

text \<open>The floats nearest to 0.1 and to 3000.1, and a number that is a float.\<close>

lemma rnd_examples:
  "rnd (1 / 10) = 3602879701896397 / 36028797018963968"
  "rnd (30001 / 10) = 6597289668981555 / 2199023255552"
  "rnd 903 = 903"
  by code_simp+

section \<open>refresh\_order: the status of an order\<close>

lemma refresh_order_status:
  "o_status (snd (refresh_order clk app ord (Some t))) = trade_status t"
  by (simp add: refresh_order_def order_update_def Let_def split: prod.splits)

text \<open>
  C3. The status that \<open>refresh_order\<close> gives an order is decided by the trade alone:
  OK exactly when the trade is done and its status is Filled; CANCD exactly when it is
  done with any other status; ACTIVE exactly when it is not done and either active in
  status Submitted, or not active in status PendingCancel; SENT exactly when it is not
  done, active, and in a status other than Submitted; ERROR exactly when it is neither
  done nor active nor in PendingCancel.
\<close>

theorem trade_status_mapping:
  fixes clk :: clock and app :: ib_app and ord :: order and t :: ib_trade
  defines "st \<equiv> o_status (snd (refresh_order clk app ord (Some t)))"
  shows "(st = OK \<longleftrightarrow> isDone t \<and> status t = ''Filled'') \<and>
         (st = CANCD \<longleftrightarrow> isDone t \<and> status t \<noteq> ''Filled'') \<and>
         (st = ACTIVE \<longleftrightarrow> \<not> isDone t \<and>
            (isActive t \<and> status t = ''Submitted'' \<or>
             \<not> isActive t \<and> status t = ''PendingCancel'')) \<and>
         (st = SENT \<longleftrightarrow> \<not> isDone t \<and> isActive t \<and> status t \<noteq> ''Submitted'') \<and>
         (st = ERROR \<longleftrightarrow> \<not> isDone t \<and> \<not> isActive t \<and> status t \<noteq> ''PendingCancel'')"
  unfolding st_def refresh_order_status by (simp add: trade_status_def)

theorem trade_status_mapping_witness:
  "o_status (snd (refresh_order ex_clock ex_app ex_order (Some ex_filled_trade))) = OK \<and>
   o_status (snd (refresh_order ex_clock ex_app ex_order
     (Some (ex_trade ''PendingCancel'' False False [])))) = ACTIVE"
  using trade_status_mapping [of ex_clock ex_app ex_order ex_filled_trade]
    trade_status_mapping [of ex_clock ex_app ex_order "ex_trade ''PendingCancel'' False False []"]
  by (simp add: ex_filled_trade_def ex_trade_def)

section \<open>refresh\_order: the fills of an order\<close>

lemma fills_loop_folds:
  "fills_loop fs (l, q, tot, c) =
     (fold (\<lambda>f l. case l of None \<Rightarrow> Some (f_time f)
                      | Some t \<Rightarrow> if t < f_time f then Some (f_time f) else Some t) fs l,
      foldl fadd q (map (\<lambda>f. shares (execution f)) fs),
      foldl fadd tot (map (\<lambda>f. fmul (fill_price f) (shares (execution f))) fs),
      foldl fadd c (map commission fs))"
  by (induction fs arbitrary: l q tot c) simp_all

lemma latest_Some:
  "fold (\<lambda>f l. case l of None \<Rightarrow> Some (f_time f)
                      | Some t \<Rightarrow> if t < f_time f then Some (f_time f) else Some t) fs (Some t0)
   = Some (Max (insert t0 (f_time ` set fs)))"
proof (induction fs arbitrary: t0)
  case Nil
  show ?case by simp
next
  case (Cons f fs)
  have "Max (insert t0 (f_time ` set (f # fs))) = Max (insert (max t0 (f_time f)) (f_time ` set fs))"
    by (cases "fs = []") (simp_all add: Max_insert max.assoc max.commute insert_commute)
  then show ?case using Cons by (simp add: max_def)
qed

lemma latest_None:
  "fold (\<lambda>f l. case l of None \<Rightarrow> Some (f_time f)
                      | Some t \<Rightarrow> if t < f_time f then Some (f_time f) else Some t) fs None
   = (if fs = [] then None else Some (Max (f_time ` set fs)))"
  by (cases fs) (simp_all add: latest_Some)

lemma truthy_iff: "truthy x \<longleftrightarrow> x \<noteq> Fl 0"
  by (cases x) auto

text \<open>
  C4, as the code has it. Let \<open>fs\<close> be the fills of a trade: its own fill list or,
  when that list is empty, the broker's executions whose permId is the trade's. After
  \<open>refresh_order\<close> the order's filled quantity is the sum of the shares of \<open>fs\<close>;
  its average price is 0 when \<open>fs\<close> is empty or the quantity is zero, and otherwise
  the sum of price times shares divided by the quantity, where the price of a fill is its
  execution price or, when that is zero, its execution's average price; its commission
  is the sum of the commissions; and \<open>completed_at\<close> is the latest fill time when the
  status is OK and \<open>fs\<close> is not empty, and unset otherwise.
\<close>

theorem refresh_order_fill_aggregation:
  fixes clk :: clock and app :: ib_app and ord :: order and t :: ib_trade
  defines "fs \<equiv> (if fills t = []
                  then filter (\<lambda>f. ex_permId (execution f) = permId (t_order t)) (app_fills app)
                  else fills t)"
    and "pr \<equiv> (\<lambda>f. if ex_price (execution f) = Fl 0 then avgPrice (execution f)
                     else ex_price (execution f))"
    and "ord' \<equiv> snd (refresh_order clk app ord (Some t))"
  shows "o_qty ord' = foldl fadd (Fl 0) (map (\<lambda>f. shares (execution f)) fs) \<and>
         avg_price ord' =
           (if fs = [] \<or> o_qty ord' = Fl 0 then Fl 0
            else fdiv (foldl fadd (Fl 0) (map (\<lambda>f. fmul (pr f) (shares (execution f))) fs))
                   (o_qty ord')) \<and>
         o_commission ord' = foldl fadd (Fl 0) (map commission fs) \<and>
         completed_at ord' =
           (if o_status ord' = OK \<and> fs \<noteq> [] then Some (Max (f_time ` set fs)) else None)"
proof -
  have f: "trade_fills app t = fs"
    by (simp add: trade_fills_def get_order_fills_from_executions_def fs_def)
  have p: "fill_price = pr"
    by (rule ext) (simp add: fill_price_def pr_def truthy_iff)
  show ?thesis
    unfolding ord'_def
    by (simp add: refresh_order_def fills_loop_folds latest_None order_update_def Let_def f p
        truthy_iff)
qed

theorem refresh_order_fill_aggregation_witness:
  "o_qty (snd (refresh_order ex_clock ex_app ex_order (Some ex_avg_trade))) = Fl 10 \<and>
   avg_price (snd (refresh_order ex_clock ex_app ex_order (Some ex_avg_trade))) = Fl 101 \<and>
   o_commission (snd (refresh_order ex_clock ex_app ex_order (Some ex_avg_trade))) = Fl 2 \<and>
   completed_at (snd (refresh_order ex_clock ex_app ex_order (Some ex_avg_trade))) = Some 20 \<and>
   o_qty (snd (refresh_order ex_clock ex_app_fills ex_order
     (Some (ex_trade ''Submitted'' False True [])))) = Fl 5 \<and>
   avg_price (snd (refresh_order ex_clock ex_app_fills ex_order
     (Some (ex_trade ''Submitted'' False True [])))) = Fl 100 \<and>
   completed_at (snd (refresh_order ex_clock ex_app_fills ex_order
     (Some (ex_trade ''Submitted'' False True [])))) = None"
proof -
  let ?fs = "[ex_fill 10 5 100 1 7, ex_fallback_fill]"
  let ?pr = "\<lambda>f. if ex_price (execution f) = Fl 0 then avgPrice (execution f)
                     else ex_price (execution f)"
  have fs: "fills ex_avg_trade = ?fs"
    by (simp add: ex_avg_trade_def ex_trade_def)
  have q: "foldl fadd (Fl 0) (map (\<lambda>f. shares (execution f)) ?fs) = Fl 10"
    by code_simp
  have tot: "fdiv (foldl fadd (Fl 0) (map (\<lambda>f. fmul (?pr f) (shares (execution f))) ?fs)) (Fl 10)
      = Fl 101"
    by code_simp
  have c: "foldl fadd (Fl 0) (map commission ?fs) = Fl 2"
    by code_simp
  have m: "Max (f_time ` set ?fs) = 20"
    by (simp add: ex_fill_def ex_fallback_fill_def)
  have st: "o_status (snd (refresh_order ex_clock ex_app ex_order (Some ex_avg_trade))) = OK"
    by (simp add: refresh_order_status trade_status_def ex_avg_trade_def ex_trade_def)
  from refresh_order_fill_aggregation [of ex_clock ex_app ex_order ex_avg_trade]
  have w1: "o_qty (snd (refresh_order ex_clock ex_app ex_order (Some ex_avg_trade))) = Fl 10 \<and>
      avg_price (snd (refresh_order ex_clock ex_app ex_order (Some ex_avg_trade))) = Fl 101 \<and>
      o_commission (snd (refresh_order ex_clock ex_app ex_order (Some ex_avg_trade))) = Fl 2 \<and>
      completed_at (snd (refresh_order ex_clock ex_app ex_order (Some ex_avg_trade))) = Some 20"
    unfolding fs using q tot c m st by simp
  let ?t = "ex_trade ''Submitted'' False True []"
  let ?gs = "[ex_fill 10 5 100 1 7]"
  have gs: "fills ?t = []"
    "filter (\<lambda>f. ex_permId (execution f) = permId (t_order ?t)) (app_fills ex_app_fills) = ?gs"
    by (simp_all add: ex_trade_def ex_app_fills_def ex_app_def ex_fill_def)
  have q2: "foldl fadd (Fl 0) (map (\<lambda>f. shares (execution f)) ?gs) = Fl 5"
    by code_simp
  have tot2: "fdiv (foldl fadd (Fl 0) (map (\<lambda>f. fmul (?pr f) (shares (execution f))) ?gs)) (Fl 5)
      = Fl 100"
    by code_simp
  have st2: "o_status (snd (refresh_order ex_clock ex_app_fills ex_order (Some ?t))) = ACTIVE"
    by (simp add: refresh_order_status trade_status_def ex_trade_def)
  from refresh_order_fill_aggregation [of ex_clock ex_app_fills ex_order ?t]
  have w2: "o_qty (snd (refresh_order ex_clock ex_app_fills ex_order (Some ?t))) = Fl 5 \<and>
      avg_price (snd (refresh_order ex_clock ex_app_fills ex_order (Some ?t))) = Fl 100 \<and>
      completed_at (snd (refresh_order ex_clock ex_app_fills ex_order (Some ?t))) = None"
    unfolding gs using q2 tot2 st2 by simp
  from w1 w2 show ?thesis by simp
qed

text \<open>
  A trade in status Filled that carries no fill, with a broker that has no execution for
  it: the status is OK and \<open>completed_at\<close> is unset. With a broker that has an
  execution of 5 shares for the permId of the trade, the quantity is 5 although the fill
  list of the trade is empty.
\<close>

theorem refresh_order_filled_without_fills_counterexample:
  "fills (ex_trade ''Filled'' True False []) = [] \<and>
   app_fills ex_app = [] \<and>
   o_status (snd (refresh_order ex_clock ex_app ex_order
     (Some (ex_trade ''Filled'' True False [])))) = OK \<and>
   completed_at (snd (refresh_order ex_clock ex_app ex_order
     (Some (ex_trade ''Filled'' True False [])))) = None \<and>
   o_qty (snd (refresh_order ex_clock ex_app_fills ex_order
     (Some (ex_trade ''Filled'' True False [])))) = Fl 5"
  by code_simp

section \<open>Server.remove\_query\<close>

lemma remove_query_absent: "find_query srv q = None \<Longrightarrow> remove_query srv q = Inr srv"
  by (simp add: remove_query_def)

lemma remove_query_present: "find_query srv q = Some t \<Longrightarrow> remove_query srv q = Inl TypeError"
  by (cases "queries srv") (auto simp: remove_query_def unpack_query_def find_query_def)

text \<open>
  C5. Releasing a key that is cached does not cancel and remove the subscription: the
  loop of \<open>remove_query\<close> unpacks a Query object and raises TypeError. Here the cache
  holds the subscription of (MSFT, DAY) and that key is released.
\<close>

theorem remove_query_cached_raises:
  "find_query ex_msft_server (StockQuery ''MSFT'' DAY) \<noteq> None \<and>
   remove_query ex_msft_server (StockQuery ''MSFT'' DAY) = Inl TypeError"
  by (simp add: remove_query_def find_query_def ex_msft_server_def same_key_def same_repr_def
      StockQuery_def unpack_query_def)

section \<open>create\_contract\<close>

lemma create_contract_other:
  "ex \<noteq> ''SMART'' \<Longrightarrow> ex \<noteq> ''ISLAND'' \<Longrightarrow> length (snd (snd (create_contract app b sy ex))) \<le> 1"
  by (subst create_contract.simps) (simp add: Let_def split: option.splits)

lemma create_contract_island:
  "length (snd (snd (create_contract app b sy ''ISLAND''))) \<le> 2"
  using create_contract_other [of "''NYSE''" app b sy]
  by (subst create_contract.simps) (auto simp: Let_def split: option.splits prod.splits)

lemma create_contract_smart:
  "length (snd (snd (create_contract app b sy ''SMART''))) \<le> 3"
  using create_contract_island [of app b sy]
  by (subst create_contract.simps) (auto simp: Let_def split: option.splits prod.splits)

lemma create_contract_lookups: "length (snd (snd (create_contract app b sy ex))) \<le> 3"
  using create_contract_smart [of app b sy] create_contract_island [of app b sy]
    create_contract_other [of ex app b sy]
  by (cases "ex = ''SMART''"; cases "ex = ''ISLAND''") auto

text \<open>The scenario of the tests: MSFT is resolved at NYSE after SMART and ISLAND.\<close>

lemma create_contract_msft:
  "create_contract ex_app_mock ex_broker ''MSFT'' ''SMART'' =
     (Some (Stock ''MSFT'' ''NYSE'' ''USD''),
      ex_broker\<lparr>contracts := [(''MSFT'', Stock ''MSFT'' ''NYSE'' ''USD'')]\<rparr>,
      [Stock ''MSFT'' ''SMART'' ''USD'', Stock ''MSFT'' ''ISLAND'' ''USD'',
       Stock ''MSFT'' ''NYSE'' ''USD''])"
proof -
  have m: "contracts ex_broker = []"
    by (simp add: ex_broker_def)
  have d: "reqContractDetails ex_app_mock (Stock ''MSFT'' ''SMART'' ''USD'')
             = [Stock ''MSFT'' ''SMART'' ''USD'', Stock ''MSFT'' ''SMART'' ''USD'']"
    "reqContractDetails ex_app_mock (Stock ''MSFT'' ''ISLAND'' ''USD'') = []"
    "reqContractDetails ex_app_mock (Stock ''MSFT'' ''NYSE'' ''USD'')
             = [Stock ''MSFT'' ''NYSE'' ''USD'']"
    by (simp_all add: ex_app_mock_def ex_app_def Stock_def)
  have n: "create_contract ex_app_mock ex_broker ''MSFT'' ''NYSE'' =
      (Some (Stock ''MSFT'' ''NYSE'' ''USD''),
       ex_broker\<lparr>contracts := [(''MSFT'', Stock ''MSFT'' ''NYSE'' ''USD'')]\<rparr>,
       [Stock ''MSFT'' ''NYSE'' ''USD''])"
    by (subst create_contract.simps) (simp add: m d Let_def)
  have i: "create_contract ex_app_mock ex_broker ''MSFT'' ''ISLAND'' =
      (Some (Stock ''MSFT'' ''NYSE'' ''USD''),
       ex_broker\<lparr>contracts := [(''MSFT'', Stock ''MSFT'' ''NYSE'' ''USD'')]\<rparr>,
       [Stock ''MSFT'' ''ISLAND'' ''USD'', Stock ''MSFT'' ''NYSE'' ''USD''])"
    by (subst create_contract.simps) (simp add: m d n Let_def)
  show ?thesis
    by (subst create_contract.simps) (simp add: m d i Let_def)
qed

text \<open>
  C6, as the code has it. For a symbol that is not in the memo: when a lookup at an
  exchange other than ISLAND, SMART among them, returns no candidate, resolution fails at
  once, with that lookup as its only one; when a lookup at ISLAND returns no candidate,
  resolution goes on at NYSE; and no resolution makes more than three lookups.
\<close>

theorem create_contract_zero_candidates:
  assumes "map_of (contracts b) sy = None"
  shows "(ex \<noteq> ''ISLAND'' \<and> reqContractDetails app (Stock sy ex ''USD'') = [] \<longrightarrow>
            create_contract app b sy ex = (None, b, [Stock sy ex ''USD''])) \<and>
         (reqContractDetails app (Stock sy ''ISLAND'' ''USD'') = [] \<longrightarrow>
            create_contract app b sy ''ISLAND'' =
              (case create_contract app b sy ''NYSE'' of
                 (r, b', reqs) \<Rightarrow> (r, b', Stock sy ''ISLAND'' ''USD'' # reqs))) \<and>
         length (snd (snd (create_contract app b sy ex))) \<le> 3"
proof (intro conjI impI)
  assume "ex \<noteq> ''ISLAND'' \<and> reqContractDetails app (Stock sy ex ''USD'') = []"
  with assms show "create_contract app b sy ex = (None, b, [Stock sy ex ''USD''])"
    by (subst create_contract.simps) simp
next
  assume "reqContractDetails app (Stock sy ''ISLAND'' ''USD'') = []"
  with assms show "create_contract app b sy ''ISLAND'' =
      (case create_contract app b sy ''NYSE'' of
         (r, b', reqs) \<Rightarrow> (r, b', Stock sy ''ISLAND'' ''USD'' # reqs))"
    by (subst create_contract.simps) simp
next
  show "length (snd (snd (create_contract app b sy ex))) \<le> 3"
    by (rule create_contract_lookups)
qed

theorem create_contract_zero_candidates_witness:
  "create_contract ex_app ex_broker ''XYZ'' ''SMART''
     = (None, ex_broker, [Stock ''XYZ'' ''SMART'' ''USD'']) \<and>
   create_contract ex_app ex_broker ''XYZ'' ''ISLAND''
     = (None, ex_broker, [Stock ''XYZ'' ''ISLAND'' ''USD'', Stock ''XYZ'' ''NYSE'' ''USD'']) \<and>
   length (snd (snd (create_contract ex_app ex_broker ''XYZ'' ''SMART''))) \<le> 3"
proof -
  have m: "map_of (contracts ex_broker) ''XYZ'' = None"
    by (simp add: ex_broker_def)
  have z: "reqContractDetails ex_app c = []" for c
    by (simp add: ex_app_def)
  have n: "create_contract ex_app ex_broker ''XYZ'' ''NYSE''
      = (None, ex_broker, [Stock ''XYZ'' ''NYSE'' ''USD''])"
    by (subst create_contract.simps) (simp add: m z)
  show ?thesis
    using create_contract_zero_candidates [OF m, where app = ex_app and ex = "''SMART''"] z n
    by simp
qed

text \<open>
  The symbol XYZ has no contract at SMART and one at ISLAND: resolution makes the lookup
  at SMART and fails, without a lookup at ISLAND.
\<close>

theorem create_contract_no_retry_counterexample:
  "reqContractDetails ex_app_island (Stock ''XYZ'' ''SMART'' ''USD'') = [] \<and>
   length (reqContractDetails ex_app_island (Stock ''XYZ'' ''ISLAND'' ''USD'')) = 1 \<and>
   create_contract ex_app_island ex_broker ''XYZ'' ''SMART''
     = (None, ex_broker, [Stock ''XYZ'' ''SMART'' ''USD''])"
  by (subst create_contract.simps) (simp add: ex_app_island_def ex_broker_def Stock_def)

section \<open>refresh\_account: the steps\<close>

lemma position_index_Some:
  "position_index ps sy = Some j \<Longrightarrow> j < length ps \<and> symbol (ps ! j) = sy"
  by (induction ps arbitrary: j) (auto split: if_splits)

lemma position_index_None: "position_index ps sy = None \<longleftrightarrow> sy \<notin> symbol ` set ps"
  by (induction ps) auto

lemma symbol_update_pnl [simp]: "symbol (update_pnl clk lp p) = symbol p"
  by (simp add: update_pnl_def Let_def split: option.splits)

lemma symbol_position_update [simp]: "symbol (position_update clk q pr v p) = symbol p"
  by (simp add: position_update_def)

lemma symbol_Position [simp]: "symbol (Position clk ob sy q pr v) = sy"
  by (simp add: Position_def)

lemma refresh_position_found:
  assumes "refresh_position clk app ibp b a = Inr (b', a')"
    and "canonical_symbol (ip_contract ibp) \<in> symbol ` set (acc_positions a)"
  shows "map symbol (acc_positions a') = map symbol (acc_positions a) \<and>
         a' = a\<lparr>acc_positions := acc_positions a'\<rparr>"
proof -
  from assms(2) obtain j where j: "position_index (acc_positions a) (canonical_symbol (ip_contract ibp)) = Some j"
    using position_index_None [of "acc_positions a" "canonical_symbol (ip_contract ibp)"] by auto
  note js = position_index_Some [OF j]
  from assms(1) j js show ?thesis
    by (auto simp: refresh_position_def Let_def map_update list_update_same_conv
        split: sum.splits prod.splits)
qed

lemma refresh_position_not_found:
  assumes "refresh_position clk app ibp b a = Inr (b', a')"
    and "canonical_symbol (ip_contract ibp) \<notin> symbol ` set (acc_positions a)"
  shows "map symbol (acc_positions a') = map symbol (acc_positions a) @ [canonical_symbol (ip_contract ibp)] \<and>
         a' = a\<lparr>acc_positions := acc_positions a'\<rparr>"
proof -
  from assms(2) have j: "position_index (acc_positions a) (canonical_symbol (ip_contract ibp)) = None"
    by (simp add: position_index_None)
  from assms(1) j show ?thesis
    by (auto simp: refresh_position_def Let_def split: sum.splits prod.splits)
qed

lemma refresh_position_symbols:
  assumes "refresh_position clk app ibp b a = Inr (b', a')"
  shows "set (map symbol (acc_positions a')) =
           insert (canonical_symbol (ip_contract ibp)) (set (map symbol (acc_positions a))) \<and>
         (distinct (map symbol (acc_positions a)) \<longrightarrow> distinct (map symbol (acc_positions a'))) \<and>
         a' = a\<lparr>acc_positions := acc_positions a'\<rparr>"
proof (cases "canonical_symbol (ip_contract ibp) \<in> symbol ` set (acc_positions a)")
  case True
  from refresh_position_found [OF assms True] True show ?thesis by auto
next
  case False
  from refresh_position_not_found [OF assms False] False show ?thesis by auto
qed

lemma positions_loop_symbols:
  assumes "positions_loop clk app ibps syms b a = Inr (syms', b', a')"
  shows "syms' = syms @ map (\<lambda>p. canonical_symbol (ip_contract p)) ibps \<and>
         set (map symbol (acc_positions a')) =
           set (map symbol (acc_positions a)) \<union> set (map (\<lambda>p. canonical_symbol (ip_contract p)) ibps) \<and>
         (distinct (map symbol (acc_positions a)) \<longrightarrow> distinct (map symbol (acc_positions a'))) \<and>
         a' = a\<lparr>acc_positions := acc_positions a'\<rparr>"
  using assms
proof (induction ibps arbitrary: syms b a)
  case Nil
  then show ?case by simp
next
  case (Cons ibp rest)
  from Cons.prems obtain b1 a1 where
    s: "refresh_position clk app ibp b a = Inr (b1, a1)" and
    r: "positions_loop clk app rest (syms @ [canonical_symbol (ip_contract ibp)]) b1 a1 = Inr (syms', b', a')"
    by (auto split: sum.splits)
  note p = refresh_position_symbols [OF s]
  note q = Cons.IH [OF r]
  have "a' = a\<lparr>acc_positions := acc_positions a'\<rparr>"
    using p q by (metis account.update_convs(8) account.surjective)
  with p q show ?case by auto
qed

text \<open>A release that returns has found no subscription and has left the server as it was.\<close>

lemma remove_query_Inr: "remove_query srv q = Inr srv' \<Longrightarrow> srv' = srv \<and> find_query srv q = None"
  by (cases "find_query srv q") (auto simp: remove_query_present, simp add: remove_query_def)

lemma md_clear [simp]: "md (clear_position_chart_data b p) = md b"
  by (simp add: clear_position_chart_data_def Let_def)

lemma delete_at_append: "delete_at (length xs) (xs @ x # ys) = xs @ ys"
  by (simp add: delete_at_def)

lemma delete_loop_filter:
  assumes "acc_positions a = xs @ ys"
    and "delete_loop syms (rev [0..<length xs]) b a = Inr (b', a')"
  shows "acc_positions a' = filter (\<lambda>p. symbol p \<in> set syms) xs @ ys \<and>
         a' = a\<lparr>acc_positions := acc_positions a'\<rparr> \<and> md b' = md b"
  using assms
proof (induction xs arbitrary: a b ys rule: rev_induct)
  case Nil
  then show ?case by simp
next
  case (snoc x xs)
  have nth: "acc_positions a ! length xs = x"
    using snoc.prems(1) by simp
  show ?case
  proof (cases "symbol x \<in> set syms")
    case True
    with snoc.prems nth have r: "delete_loop syms (rev [0..<length xs]) b a = Inr (b', a')"
      by simp
    have "acc_positions a = xs @ (x # ys)" using snoc.prems(1) by simp
    note ih = snoc.IH [OF this r]
    from ih True have "acc_positions a' = filter (\<lambda>p. symbol p \<in> set syms) (xs @ [x]) @ ys"
      by simp
    with ih show ?thesis by blast
  next
    case False
    let ?b1 = "clear_position_chart_data b x"
    from snoc.prems(2) nth False obtain srv where
      q: "remove_query (md ?b1) (StockQuery (symbol x) DAY) = Inr srv" and
      r: "delete_loop syms (rev [0..<length xs]) (?b1\<lparr>md := srv\<rparr>)
            (a\<lparr>acc_positions := delete_at (length xs) (acc_positions a)\<rparr>) = Inr (b', a')"
      by (auto simp: Let_def split: sum.splits)
    from remove_query_Inr [OF q] have srv: "srv = md b" by simp
    have "acc_positions (a\<lparr>acc_positions := delete_at (length xs) (acc_positions a)\<rparr>) = xs @ ys"
      using snoc.prems(1) by (simp add: delete_at_append)
    note ih = snoc.IH [OF this r]
    from ih False have 1: "acc_positions a' = filter (\<lambda>p. symbol p \<in> set syms) (xs @ [x]) @ ys"
      by simp
    from ih have "a' = a\<lparr>acc_positions := delete_at (length xs) (acc_positions a)\<rparr>\<lparr>acc_positions := acc_positions a'\<rparr>"
      by blast
    then have 2: "a' = a\<lparr>acc_positions := acc_positions a'\<rparr>"
      by simp
    from ih srv have 3: "md b' = md b" by simp
    from 1 2 3 show ?thesis by blast
  qed
qed

lemma refresh_trade_frame:
  "refresh_trade clk app t b a = Inr (b', a') \<Longrightarrow> b' = b \<and> a' = a\<lparr>orders := orders a'\<rparr>"
  by (auto simp: refresh_trade_def Let_def split: option.splits sum.splits)

lemma orders_loop_frame:
  "orders_loop clk app ts b a = Inr (b', a') \<Longrightarrow> b' = b \<and> a' = a\<lparr>orders := orders a'\<rparr>"
proof (induction ts arbitrary: b a)
  case Nil
  then show ?case by simp
next
  case (Cons t ts)
  from Cons.prems obtain b1 a1 where
    s: "refresh_trade clk app t b a = Inr (b1, a1)" and
    r: "orders_loop clk app ts b1 a1 = Inr (b', a')"
    by (auto split: sum.splits)
  from refresh_trade_frame [OF s] Cons.IH [OF r] show ?case
    by (metis account.update_convs(9) account.surjective)
qed

lemma refresh_account_InrD:
  assumes "refresh_account clk app b a = Inr (b', a')"
  obtains tcv af nl dtr syms b2 a2 b3 a3 where
    "get_account_code app = Inr (code a)"
    "summary_loop (code a) (accountSummary app) (Fl 0, Fl 0, Fl 0, 0) = Inr (tcv, af, nl, dtr)"
    "positions_loop clk app (app_positions app (code a)) [] b (account_update clk nl tcv af dtr a)
       = Inr (syms, b2, a2)"
    "delete_loop syms (rev [0..<length (acc_positions a2)]) b2 a2 = Inr (b3, a3)"
    "orders_loop clk app (trades app @ reqCompletedOrders app) b3 a3 = Inr (b', a')"
  using assms
  by (auto simp: refresh_account_def Let_def account_update_def split: sum.splits if_splits prod.splits)

text \<open>Refreshes of the example accounts, evaluated.\<close>

lemma refresh_fb:
  "refresh_account ex_clock ex_app_fb ex_broker ex_account = Inr (ex_broker_fb 1, ex_account_fb 1)"
  by code_simp

lemma refresh_fb_two:
  "refresh_account ex_clock ex_app_fb ex_broker ex_account_two = Inr (ex_broker_fb 3, ex_account_fb 3)"
  by code_simp

lemma refresh_fb_gone:
  "refresh_account ex_clock ex_app_prime (ex_broker_fb 1) (ex_account_fb 1)
     = Inr ((ex_broker_fb 1)\<lparr>position_chart_data := []\<rparr>, (ex_account_fb 1)\<lparr>acc_positions := []\<rparr>)"
  by code_simp

section \<open>refresh\_account: the wrong account\<close>

text \<open>
  C2. When the account code that the broker reports differs from the code of the account,
  \<open>refresh_account\<close> raises the account mismatch error, and the service and the
  account (summary fields, positions, orders) are what they were before the call.
\<close>

theorem refresh_account_mismatch:
  assumes "get_account_code app = Inr c" and "c \<noteq> code a"
  shows "refresh_account clk app b a = Inl (AccountMismatch, b, a)"
  using assms by (auto simp: refresh_account_def)

theorem refresh_account_mismatch_witness:
  "get_account_code ex_app_other = Inr ''B'' \<and>
   refresh_account ex_clock ex_app_other ex_broker (ex_account\<lparr>code := ''A''\<rparr>)
     = Inl (AccountMismatch, ex_broker, ex_account\<lparr>code := ''A''\<rparr>)"
proof -
  have c: "get_account_code ex_app_other = Inr ''B''"
    by (simp add: get_account_code_def ex_app_other_def ex_acs_def)
  show ?thesis
    using c refresh_account_mismatch [OF c, of "ex_account\<lparr>code := ''A''\<rparr>" ex_clock ex_broker]
    by simp
qed

section \<open>refresh\_account: the account summary\<close>

lemma summary_loop_frame:
  "summary_loop c xs (tcv, af, nl, dtr) = Inr (tcv', af', nl', dtr') \<Longrightarrow>
   ((\<forall>s\<in>set xs. as_account s = c \<longrightarrow> tag s \<noteq> ''TotalCashValue'') \<longrightarrow> tcv' = tcv) \<and>
   ((\<forall>s\<in>set xs. as_account s = c \<longrightarrow> tag s \<noteq> ''AvailableFunds'') \<longrightarrow> af' = af) \<and>
   ((\<forall>s\<in>set xs. as_account s = c \<longrightarrow> tag s \<noteq> ''NetLiquidation'') \<longrightarrow> nl' = nl) \<and>
   ((\<forall>s\<in>set xs. as_account s = c \<longrightarrow> tag s \<noteq> ''DayTradesRemaining'') \<longrightarrow> dtr' = dtr)"
proof (induction xs arbitrary: tcv af nl dtr)
  case Nil
  then show ?case by simp
next
  case (Cons x xs)
  show ?case
  proof (cases "as_account x = c")
    case False
    with Cons.prems Cons.IH [of tcv af nl dtr] show ?thesis by simp
  next
    case True
    consider (t) "tag x = ''TotalCashValue''" | (a) "tag x = ''AvailableFunds''"
      | (n) "tag x = ''NetLiquidation''" | (d) "tag x = ''DayTradesRemaining''"
      | (o) "tag x \<noteq> ''TotalCashValue''" "tag x \<noteq> ''AvailableFunds''"
            "tag x \<noteq> ''NetLiquidation''" "tag x \<noteq> ''DayTradesRemaining''"
      by blast
    then show ?thesis
    proof cases
      case t
      with True Cons.prems obtain v where v: "as_float (as_value x) = Some v"
        "summary_loop c xs (v, af, nl, dtr) = Inr (tcv', af', nl', dtr')"
        by (auto split: option.splits)
      from Cons.IH [OF v(2)] True t show ?thesis by simp
    next
      case a
      with True Cons.prems obtain v where v: "as_float (as_value x) = Some v"
        "summary_loop c xs (tcv, v, nl, dtr) = Inr (tcv', af', nl', dtr')"
        by (auto split: option.splits)
      from Cons.IH [OF v(2)] True a show ?thesis by simp
    next
      case n
      with True Cons.prems obtain v where v: "as_float (as_value x) = Some v"
        "summary_loop c xs (tcv, af, v, dtr) = Inr (tcv', af', nl', dtr')"
        by (auto split: option.splits)
      from Cons.IH [OF v(2)] True n show ?thesis by simp
    next
      case d
      with True Cons.prems obtain v where v: "as_int (as_value x) = Some v"
        "summary_loop c xs (tcv, af, nl, v) = Inr (tcv', af', nl', dtr')"
        by (auto split: option.splits)
      from Cons.IH [OF v(2)] True d show ?thesis by simp
    next
      case o
      with True Cons.prems Cons.IH [of tcv af nl dtr] show ?thesis by simp
    qed
  qed
qed

text \<open>
  C9. After a refresh that returns, each of the four summary fields whose tag
  (NetLiquidation, TotalCashValue, AvailableFunds, DayTradesRemaining) does not occur in
  the broker's summary for the account is zero, whatever it was before.
\<close>

theorem refresh_account_missing_tag_zero:
  assumes "refresh_account clk app b a = Inr (b', a')"
  shows "((\<forall>s\<in>set (accountSummary app). as_account s = code a \<longrightarrow> tag s \<noteq> ''NetLiquidation'')
            \<longrightarrow> total_value a' = Fl 0) \<and>
         ((\<forall>s\<in>set (accountSummary app). as_account s = code a \<longrightarrow> tag s \<noteq> ''TotalCashValue'')
            \<longrightarrow> cash_value a' = Fl 0) \<and>
         ((\<forall>s\<in>set (accountSummary app). as_account s = code a \<longrightarrow> tag s \<noteq> ''AvailableFunds'')
            \<longrightarrow> available_funds a' = Fl 0) \<and>
         ((\<forall>s\<in>set (accountSummary app). as_account s = code a \<longrightarrow> tag s \<noteq> ''DayTradesRemaining'')
            \<longrightarrow> day_trades_remaining a' = 0)"
proof -
  from assms obtain tcv af nl dtr syms b2 a2 b3 a3 where
    s: "summary_loop (code a) (accountSummary app) (Fl 0, Fl 0, Fl 0, 0) = Inr (tcv, af, nl, dtr)" and
    p: "positions_loop clk app (app_positions app (code a)) [] b (account_update clk nl tcv af dtr a)
       = Inr (syms, b2, a2)" and
    d: "delete_loop syms (rev [0..<length (acc_positions a2)]) b2 a2 = Inr (b3, a3)" and
    o: "orders_loop clk app (trades app @ reqCompletedOrders app) b3 a3 = Inr (b', a')"
    by (rule refresh_account_InrD)
  let ?a1 = "account_update clk nl tcv af dtr a"
  have a2: "a2 = ?a1\<lparr>acc_positions := acc_positions a2\<rparr>"
    using positions_loop_symbols [OF p] by blast
  have "acc_positions a2 = acc_positions a2 @ []" by simp
  from delete_loop_filter [OF this d] have a3: "a3 = a2\<lparr>acc_positions := acc_positions a3\<rparr>"
    by blast
  from orders_loop_frame [OF o] have a': "a' = a3\<lparr>orders := orders a'\<rparr>"
    by blast
  have e: "a' = ?a1\<lparr>acc_positions := acc_positions a3, orders := orders a'\<rparr>"
    by (subst a', subst a3, subst a2) simp
  have f: "total_value a' = nl" "cash_value a' = tcv" "available_funds a' = af"
    "day_trades_remaining a' = dtr"
    by (subst e, simp add: account_update_def)+
  from summary_loop_frame [OF s] f show ?thesis
    by simp
qed

theorem refresh_account_missing_tag_zero_witness:
  "refresh_account ex_clock ex_app_sparse ex_broker ex_account
     = Inr (ex_broker, ex_account\<lparr>total_value := Fl 0, cash_value := Fl 0, available_funds := Fl 0,
                                 day_trades_remaining := 0, acc_updated_at := 1000\<rparr>) \<and>
   total_value ex_account = Fl 3000 \<and> cash_value ex_account = Fl 2000 \<and>
   available_funds ex_account = Fl 1000 \<and> day_trades_remaining ex_account = 3"
proof -
  have r: "refresh_account ex_clock ex_app_sparse ex_broker ex_account
     = Inr (ex_broker, ex_account\<lparr>total_value := Fl 0, cash_value := Fl 0, available_funds := Fl 0,
                                 day_trades_remaining := 0, acc_updated_at := 1000\<rparr>)"
    by code_simp
  show ?thesis
    using refresh_account_missing_tag_zero [OF r] r by (simp add: ex_account_def)
qed

section \<open>refresh\_account: the positions\<close>

text \<open>
  The reconciliation of the symbols. After a refresh that returns, the symbols of
  the account's positions are exactly the canonical symbols of the positions the broker
  reports: no position with another symbol is left, and every reported symbol has a
  position. When the symbols of the positions were distinct before, they are distinct
  after, so every reported symbol has exactly one position.
\<close>

lemma refresh_account_positions_reconciled:
  assumes "refresh_account clk app b a = Inr (b', a')"
  shows "set (map symbol (acc_positions a')) =
           set (map (\<lambda>p. canonical_symbol (ip_contract p)) (app_positions app (code a))) \<and>
         (distinct (map symbol (acc_positions a)) \<longrightarrow> distinct (map symbol (acc_positions a')))"
proof -
  from assms obtain tcv af nl dtr syms b2 a2 b3 a3 where
    p: "positions_loop clk app (app_positions app (code a)) [] b (account_update clk nl tcv af dtr a)
       = Inr (syms, b2, a2)" and
    d: "delete_loop syms (rev [0..<length (acc_positions a2)]) b2 a2 = Inr (b3, a3)" and
    o: "orders_loop clk app (trades app @ reqCompletedOrders app) b3 a3 = Inr (b', a')"
    by (rule refresh_account_InrD)
  let ?B = "map (\<lambda>p. canonical_symbol (ip_contract p)) (app_positions app (code a))"
  note ps = positions_loop_symbols [OF p]
  have a1: "acc_positions (account_update clk nl tcv af dtr a) = acc_positions a"
    by (simp add: account_update_def)
  have syms: "syms = ?B" using ps by simp
  have s2: "set (map symbol (acc_positions a2)) = set (map symbol (acc_positions a)) \<union> set ?B"
    using ps a1 by simp
  have d2: "distinct (map symbol (acc_positions a)) \<longrightarrow> distinct (map symbol (acc_positions a2))"
    using ps a1 by simp
  have "acc_positions a2 = acc_positions a2 @ []" by simp
  from delete_loop_filter [OF this d]
  have f3: "acc_positions a3 = filter (\<lambda>p. symbol p \<in> set ?B) (acc_positions a2)"
    using syms by simp
  from orders_loop_frame [OF o] have "acc_positions a' = acc_positions a3"
    by (metis account.select_convs(8) account.surjective account.update_convs(9))
  with f3 have f: "acc_positions a' = filter (\<lambda>p. symbol p \<in> set ?B) (acc_positions a2)"
    by simp
  have m: "map symbol (acc_positions a') = filter (\<lambda>s. s \<in> set ?B) (map symbol (acc_positions a2))"
    unfolding f by (simp add: filter_map comp_def)
  have "set (map symbol (acc_positions a')) = set ?B"
    unfolding m using s2 by auto
  moreover have "distinct (map symbol (acc_positions a)) \<longrightarrow> distinct (map symbol (acc_positions a'))"
    unfolding m using d2 by simp
  ultimately show ?thesis by simp
qed

lemma refresh_account_positions_reconciled_example:
  "refresh_account ex_clock ex_app_fb ex_broker ex_account_two = Inr (ex_broker_fb 3, ex_account_fb 3) \<and>
   set (map symbol (acc_positions ex_account_two)) = {''MSFT'', ''GOOGL''} \<and>
   set (map symbol (acc_positions (ex_account_fb 3))) = {''FB''} \<and>
   distinct (map symbol (acc_positions (ex_account_fb 3)))"
proof -
  have d: "distinct (map symbol (acc_positions ex_account_two))"
    by (simp add: ex_account_two_def)
  have s: "set (map (\<lambda>p. canonical_symbol (ip_contract p)) (app_positions ex_app_fb (code ex_account_two)))
      = {''FB''}"
    by (simp add: ex_app_fb_def canonical_symbol_def ex_fb_contract_def ex_ib_position_fb_def)
  have t: "set (map symbol (acc_positions ex_account_two)) = {''MSFT'', ''GOOGL''}"
    by (simp add: ex_account_two_def)
  show ?thesis
    using refresh_account_positions_reconciled [OF refresh_fb_two] refresh_fb_two d s t by simp
qed

text \<open>
  C1. The subscription of a deleted position is not released: the refresh releases under
  the key \<open>StockQuery(symbol, DAY)\<close> what it has opened under the key
  \<open>ContractQuery(contract, DAY)\<close> of the broker's contract. The first refresh creates
  the position FB and its subscription. The broker then reports no position: the second
  refresh deletes the position, and the server still holds the subscription and has
  cancelled nothing.
\<close>

theorem refresh_account_subscription_kept:
  "refresh_account ex_clock ex_app_fb ex_broker ex_account = Inr (ex_broker_fb 1, ex_account_fb 1) \<and>
   map symbol (acc_positions (ex_account_fb 1)) = [''FB''] \<and>
   map q_symbol (queries (md (ex_broker_fb 1))) = [''FB''] \<and>
   app_positions ex_app_prime ''prime'' = [] \<and>
   refresh_account ex_clock ex_app_prime (ex_broker_fb 1) (ex_account_fb 1)
     = Inr ((ex_broker_fb 1)\<lparr>position_chart_data := []\<rparr>, (ex_account_fb 1)\<lparr>acc_positions := []\<rparr>) \<and>
   queries (md ((ex_broker_fb 1)\<lparr>position_chart_data := []\<rparr>)) = queries (md (ex_broker_fb 1)) \<and>
   cancelled (md ((ex_broker_fb 1)\<lparr>position_chart_data := []\<rparr>)) = []"
  using refresh_fb refresh_fb_gone
  by (simp add: ex_account_fb_def ex_broker_fb_def ex_fb_position_def ex_app_prime_def ex_app_def)

text \<open>
  When the broker's contract is the one that \<open>StockQuery\<close> builds, the release finds
  the subscription and raises TypeError: the refresh fails, and the position and the
  subscription stay.
\<close>

lemma refresh_account_release_raises:
  "refresh_account ex_clock ex_app_spy ex_broker ex_account = Inr (ex_broker_spy, ex_account_spy) \<and>
   refresh_account ex_clock ex_app_prime ex_broker_spy ex_account_spy
     = Inl (TypeError, ex_broker_spy\<lparr>position_chart_data := []\<rparr>, ex_account_spy)"
  by code_simp

section \<open>refresh\_account: a new position\<close>

lemma refresh_position_new_eq:
  assumes "canonical_symbol (ip_contract ibp) \<notin> symbol ` set (acc_positions a)"
    and "refresh_position clk app ibp b a = Inr (b', a')"
  shows "\<exists>q. acc_positions a' = acc_positions a @
           [update_pnl clk
              (get_last_value (fst (add_query app (md b) (ContractQuery (ip_contract ibp) DAY))))
              (Position clk (fresh_obj b a) (canonical_symbol (ip_contract ibp)) q (avgCost ibp)
                 (fmul (avgCost ibp) (fabs (ip_position ibp))))]"
proof -
  from assms(1) have j: "position_index (acc_positions a) (canonical_symbol (ip_contract ibp)) = None"
    by (simp add: position_index_None)
  from assms(2) j show ?thesis
    by (auto simp: refresh_position_def Let_def split: sum.splits prod.splits)
qed

lemma update_pnl_Position_idle:
  "lp = None \<or> lp = Some NaN \<Longrightarrow> update_pnl clk lp (Position clk' ob sy q pr v) = Position clk' ob sy q pr v"
  by (auto simp: update_pnl_def)

text \<open>
  C7, as the code has it. When the symbol of a broker position has no local position,
  the step appends a new position with that symbol, the average cost as its price and
  average cost times the absolute quantity as its value. Let \<open>lp\<close> be the last value
  of its market data. When there is none yet, or it is NaN, the current price is the
  entry price, the current value is the value, and profit and profit margin are zero.
  When \<open>lp\<close> is a number, the current price is \<open>lp\<close> and current value, profit and
  profit margin are those that \<open>update_pnl\<close> computes from it.
\<close>

theorem refresh_position_new_pnl:
  fixes clk :: clock and app :: ib_app and ibp :: ib_position and b b' :: ib_broker
    and a a' :: account
  assumes "canonical_symbol (ip_contract ibp) \<notin> symbol ` set (acc_positions a)"
    and "refresh_position clk app ibp b a = Inr (b', a')"
  defines "lp \<equiv> get_last_value (fst (add_query app (md b) (ContractQuery (ip_contract ibp) DAY)))"
    and "p \<equiv> last (acc_positions a')"
  shows "acc_positions a' = acc_positions a @ [p] \<and>
         symbol p = canonical_symbol (ip_contract ibp) \<and>
         price p = avgCost ibp \<and>
         pos_value p = fmul (avgCost ibp) (fabs (ip_position ibp)) \<and>
         (lp = None \<or> lp = Some NaN \<longrightarrow>
            current_price p = price p \<and> current_value p = pos_value p \<and>
            profit p = Fl 0 \<and> profit_margin p = Fl 0) \<and>
         (\<forall>v. lp = Some v \<and> \<not> isnan v \<longrightarrow>
            current_price p = v \<and>
            current_value p = fabs (fmul (float_of_int (qty p)) v) \<and>
            profit p = (if 0 \<le> qty p then fsub (current_value p) (pos_value p)
                        else fsub (pos_value p) (current_value p)) \<and>
            profit_margin p = (if truthy (pos_value p) then fdiv (profit p) (pos_value p)
                               else Fl 0))"
proof -
  from refresh_position_new_eq [OF assms(1,2)] obtain q where
    e: "acc_positions a' = acc_positions a @
          [update_pnl clk lp (Position clk (fresh_obj b a) (canonical_symbol (ip_contract ibp)) q
             (avgCost ibp) (fmul (avgCost ibp) (fabs (ip_position ibp))))]"
    unfolding lp_def by blast
  let ?n = "Position clk (fresh_obj b a) (canonical_symbol (ip_contract ibp)) q
             (avgCost ibp) (fmul (avgCost ibp) (fabs (ip_position ibp)))"
  have p: "p = update_pnl clk lp ?n"
    unfolding p_def e by simp
  have 1: "acc_positions a' = acc_positions a @ [p]"
    unfolding p using e by simp
  have 2: "symbol p = canonical_symbol (ip_contract ibp)"
    unfolding p by simp
  have 3: "price p = avgCost ibp \<and> pos_value p = fmul (avgCost ibp) (fabs (ip_position ibp))"
    unfolding p by (simp add: update_pnl_def Position_def Let_def split: option.splits)
  have 4: "lp = None \<or> lp = Some NaN \<longrightarrow>
            current_price p = price p \<and> current_value p = pos_value p \<and>
            profit p = Fl 0 \<and> profit_margin p = Fl 0"
    unfolding p by (auto simp: update_pnl_Position_idle) (simp_all add: Position_def)
  have 5: "\<forall>v. lp = Some v \<and> \<not> isnan v \<longrightarrow>
            current_price p = v \<and>
            current_value p = fabs (fmul (float_of_int (qty p)) v) \<and>
            profit p = (if 0 \<le> qty p then fsub (current_value p) (pos_value p)
                        else fsub (pos_value p) (current_value p)) \<and>
            profit_margin p = (if truthy (pos_value p) then fdiv (profit p) (pos_value p)
                               else Fl 0)"
    unfolding p by (simp add: update_pnl_def Position_def Let_def)
  from 1 2 3 4 5 show ?thesis by blast
qed

theorem refresh_position_new_pnl_witness:
  "profit (last (acc_positions (snd (projr
     (refresh_position ex_clock ex_app_quiet ex_ib_position_fb ex_broker ex_account))))) = Fl 0 \<and>
   current_price (last (acc_positions (snd (projr
     (refresh_position ex_clock ex_app_quiet ex_ib_position_fb ex_broker ex_account))))) = Fl 301 \<and>
   current_price (last (acc_positions (snd (projr
     (refresh_position ex_clock ex_app_fb ex_ib_position_fb ex_broker ex_account))))) = Fl 20 \<and>
   profit (last (acc_positions (snd (projr
     (refresh_position ex_clock ex_app_fb ex_ib_position_fb ex_broker ex_account))))) = Fl (- 843)"
proof -
  let ?A1 = "ex_account\<lparr>acc_positions := [Position ex_clock 1 ''FB'' 3 (Fl 301) (Fl 903)]\<rparr>"
  let ?A2 = "ex_account\<lparr>acc_positions := [ex_fb_position 1]\<rparr>"
  have nf: "canonical_symbol (ip_contract ex_ib_position_fb) \<notin> symbol ` set (acc_positions ex_account)"
    by (simp add: ex_account_def)
  have r1: "refresh_position ex_clock ex_app_quiet ex_ib_position_fb ex_broker ex_account =
      Inr (ex_broker\<lparr>md := \<lparr>queries = [(ContractQuery ex_fb_contract DAY)], cancelled = []\<rparr>,
                      position_chart_data :=
                        [(1, \<lparr>chart_values = [], time_from = 1000, time_to = 1000\<rparr>)]\<rparr>, ?A1)"
    by code_simp
  have r2: "refresh_position ex_clock ex_app_fb ex_ib_position_fb ex_broker ex_account =
      Inr (ex_broker_fb 1, ?A2)"
    by code_simp
  have l1: "get_last_value (fst (add_query ex_app_quiet (md ex_broker)
      (ContractQuery (ip_contract ex_ib_position_fb) DAY))) = None"
    by code_simp
  have l2: "get_last_value (fst (add_query ex_app_fb (md ex_broker)
      (ContractQuery (ip_contract ex_ib_position_fb) DAY))) = Some (Fl 20)"
    by code_simp
  have c: "avgCost ex_ib_position_fb = Fl 301"
    "canonical_symbol (ip_contract ex_ib_position_fb) = ''FB''"
    by (simp_all add: ex_ib_position_fb_def canonical_symbol_def ex_fb_contract_def)
  from refresh_position_new_pnl [OF nf r1] l1
  have w1: "profit (last (acc_positions ?A1)) = Fl 0 \<and> current_price (last (acc_positions ?A1)) = Fl 301"
    by (simp add: c)
  have v: "fsub (fabs (fmul (float_of_int 3) (Fl 20))) (Fl 903) = Fl (- 843)"
    by code_simp
  have i: "qty (ex_fb_position 1) = 3" "pos_value (ex_fb_position 1) = Fl 903"
    by (simp_all add: ex_fb_position_def)
  from refresh_position_new_pnl [OF nf r2] l2
  have "current_price (last (acc_positions ?A2)) = Fl 20 \<and>
        current_value (last (acc_positions ?A2)) = fabs (fmul (float_of_int (qty (last (acc_positions ?A2)))) (Fl 20)) \<and>
        profit (last (acc_positions ?A2)) =
          (if 0 \<le> qty (last (acc_positions ?A2))
           then fsub (current_value (last (acc_positions ?A2))) (pos_value (last (acc_positions ?A2)))
           else fsub (pos_value (last (acc_positions ?A2))) (current_value (last (acc_positions ?A2))))"
    by (simp add: c)
  with i v
  have w2: "current_price (last (acc_positions ?A2)) = Fl 20 \<and> profit (last (acc_positions ?A2)) = Fl (- 843)"
    by simp
  show ?thesis
    unfolding r1 r2 using w1 w2 by simp
qed

text \<open>
  A refresh of an account without positions, from a broker that reports FB with the
  average cost 301 and market data whose last value is 20: the new position has the
  current price 20 and the profit -843.
\<close>

theorem refresh_account_new_position_counterexample:
  "refresh_account ex_clock ex_app_fb ex_broker ex_account = Inr (ex_broker_fb 1, ex_account_fb 1) \<and>
   acc_positions ex_account = [] \<and>
   acc_positions (ex_account_fb 1) = [ex_fb_position 1] \<and>
   price (ex_fb_position 1) = Fl 301 \<and>
   current_price (ex_fb_position 1) = Fl 20 \<and>
   profit (ex_fb_position 1) = Fl (- 843)"
  using refresh_fb by (simp add: ex_account_def ex_account_fb_def ex_fb_position_def)

section \<open>ChartData.resample\<close>

lemma resample_unchanged:
  "int (length (chart_values cd)) \<le> len \<Longrightarrow> resample cd len = Inr (chart_values cd)"
  by (simp add: resample_def)

lemma resample_loop_length:
  "resample_loop vs len is acc = Inr r \<Longrightarrow> length r = length acc + length is"
  by (induction "is" arbitrary: acc) (auto split: sum.splits)

lemma resample_length:
  "len < int (length (chart_values cd)) \<Longrightarrow> resample cd len = Inr r \<Longrightarrow> length r = nat len"
  by (auto simp: resample_def dest: resample_loop_length)

text \<open>
  C8. Fifteen samples resampled to eleven values: the upper bound of the last bucket is
  \<open>int((1. * 15 / 11) * 11)\<close>, which is 14 and not 15, because 15 / 11 rounded to a
  float and multiplied by 11 is just below 15. The last value is the sample at index 13
  alone, and the sample at index 14 is in no bucket.
\<close>

theorem resample_drops_last_sample:
  "bucket_bound 15 11 10 = Inr 13 \<and> bucket_bound 15 11 11 = Inr 14 \<and>
   resample ex_chart 11 =
     Inr [Fl 0, Fl 1, Fl (5 / 2), Fl 4, Fl 5, Fl (13 / 2), Fl 8, Fl 9, Fl (21 / 2), Fl 12, Fl 13]"
  by code_simp

end
